theory Spec2Isabelle
  imports Complex_Main "HOL-Library.Char_ord" "HOL-Library.List_Lexorder" "HOL-Library.Product_Lexorder"
begin

text \<open>
  A model of the offer index of the offers resolver: the customer-type ranks
  (\<open>packages/shared/src/customerTypes.ts\<close>), the page size and the cursors
  (\<open>filters.ts\<close>), the recompute engine (\<open>jobs/eligibility/recompute.ts\<close>), and the
  eligibility queries of the resolver and of the offer loaders (\<open>offersResolver\<close>,
  \<open>loaders/offerLoaders.ts\<close>), followed by the properties of its specification. The
  definitions come first, the properties after them.
\<close>

section \<open>JavaScript values\<close>

text \<open>
  A TypeScript parameter of type \<open>T | null | undefined\<close> has three kinds of value.
\<close>

datatype 'a nullable = Undefined | Null | Val 'a

text \<open>
  A JavaScript number is an IEEE double: NaN, an infinity, or a finite value, which is a
  rational number. Every comparison below is exact on doubles, so the model keeps the
  rational value; a statement proved for every \<open>Fin q\<close> holds for every double.
  The sign of zero is not kept: no operation modelled here can observe it.
\<close>

datatype jsnum = NaN | NegInf | Fin rat | PosInf

text \<open>The relational operator \<open>a < b\<close> on numbers: false as soon as one side is NaN.\<close>

fun js_lt :: "jsnum \<Rightarrow> jsnum \<Rightarrow> bool" where
  "js_lt (Fin x) (Fin y) = (x < y)"
| "js_lt NegInf (Fin y) = True"
| "js_lt NegInf PosInf = True"
| "js_lt (Fin x) PosInf = True"
| "js_lt _ _ = False"

text \<open>\<open>a >= b\<close> on numbers: also false as soon as one side is NaN.\<close>

fun js_ge :: "jsnum \<Rightarrow> jsnum \<Rightarrow> bool" where
  "js_ge NaN _ = False"
| "js_ge _ NaN = False"
| "js_ge a b = (\<not> js_lt a b)"

text \<open>\<open>a == b\<close> on numbers: NaN equals nothing.\<close>

fun js_eq :: "jsnum \<Rightarrow> jsnum \<Rightarrow> bool" where
  "js_eq NaN _ = False"
| "js_eq _ NaN = False"
| "js_eq a b = (a = b)"

text \<open>\<open>Number.isFinite\<close>.\<close>

fun isFinite :: "jsnum \<Rightarrow> bool" where
  "isFinite (Fin x) = True"
| "isFinite _ = False"

subsection \<open>Decimal text of integers\<close>

text \<open>
  A template literal prints an integer-valued number below \<open>10^21\<close> as its decimal
  digits, with a leading minus sign when negative.
\<close>

definition digit_char :: "nat \<Rightarrow> char" where
  "digit_char d = char_of (48 + d)"

definition is_digit :: "char \<Rightarrow> bool" where
  "is_digit c = (48 \<le> (of_char c :: nat) \<and> (of_char c :: nat) \<le> 57)"

fun digits :: "nat \<Rightarrow> string" where
  "digits n = (if n < 10 then [digit_char n] else digits (n div 10) @ [digit_char (n mod 10)])"

declare digits.simps [simp del]

definition int_to_string :: "int \<Rightarrow> string" where
  "int_to_string k = (if k < 0 then CHR ''-'' # digits (nat (- k)) else digits (nat k))"

definition digits_val :: "string \<Rightarrow> nat" where
  "digits_val ds = foldl (\<lambda>acc c. acc * 10 + ((of_char c :: nat) - 48)) 0 ds"

definition parse_integer :: "string \<Rightarrow> int option" where
  "parse_integer s =
     (case s of
        [] \<Rightarrow> None
      | c # ds \<Rightarrow>
          if c = CHR ''-'' then
            (if ds \<noteq> [] \<and> list_all is_digit ds then Some (- int (digits_val ds)) else None)
          else if list_all is_digit s then Some (int (digits_val s)) else None)"

text \<open>
  Two conversions of the JavaScript runtime are modelled on the inputs the program
  produces itself and left open elsewhere. The record \<open>js_runtime\<close> holds what is
  left open, and every theorem holds for every runtime:
  \<^item> \<open>number_of_text\<close>: the value of \<open>Number(s)\<close> for a text that is not the empty
    string and not an optional minus sign followed by decimal digits within the safe
    integer range (white space, fractions, exponents, hexadecimal, Infinity, digits
    beyond the safe range, text that is no number);
  \<^item> \<open>utf8_lossy\<close>: the string \<open>buf.toString("utf8")\<close> returns for bytes that are not
    well-formed UTF-8 (it replaces the malformed parts by U+FFFD).
  It also holds two library functions the resolver only passes values through:
  \<^item> \<open>trim_text\<close>: \<open>String.prototype.trim\<close>;
  \<^item> \<open>ilike\<close>: PostgreSQL's \<open>text ILIKE pattern ESCAPE '\'\<close>, as a predicate of the text
    and the pattern.
\<close>

record js_runtime =
  number_of_text :: "string \<Rightarrow> jsnum"
  utf8_lossy :: "string \<Rightarrow> string"
  trim_text :: "string \<Rightarrow> string"
  ilike :: "string \<Rightarrow> string \<Rightarrow> bool"

text \<open>
  \<open>Number(s)\<close> on a string (ECMAScript StringToNumber). The empty string is 0, and an
  optional minus sign followed by decimal digits is that integer when it lies in the safe
  range, where the double is exact.
\<close>

definition MAX_SAFE_INTEGER :: int where
  "MAX_SAFE_INTEGER = 9007199254740991"

definition StringToNumber :: "js_runtime \<Rightarrow> string \<Rightarrow> jsnum" where
  "StringToNumber rt s =
     (if s = [] then Fin 0
      else case parse_integer s of
             Some n \<Rightarrow> if \<bar>n\<bar> \<le> MAX_SAFE_INTEGER then Fin (of_int n) else number_of_text rt s
           | None \<Rightarrow> number_of_text rt s)"

text \<open>
  The values a budget field can hold at run time (the parameters are typed \<open>any\<close>):
  the primitives, a symbol, and a \<open>Prisma.Decimal\<close>, an object whose \<open>valueOf()\<close>
  returns its decimal text.
\<close>

datatype jsval =
    JUndefined
  | JNull
  | JBool bool
  | JNumber jsnum
  | JString string
  | JDecimal string
  | JSymbol

datatype js_error = TypeError | PrismaValidationError | UniqueConstraintViolation

text \<open>\<open>Number(v)\<close>: throws a TypeError on a symbol, converts everything else.\<close>

fun ToNumber :: "js_runtime \<Rightarrow> jsval \<Rightarrow> js_error + jsnum" where
  "ToNumber rt JUndefined = Inr NaN"
| "ToNumber rt JNull = Inr (Fin 0)"
| "ToNumber rt (JBool b) = Inr (Fin (if b then 1 else 0))"
| "ToNumber rt (JNumber n) = Inr n"
| "ToNumber rt (JString s) = Inr (StringToNumber rt s)"
| "ToNumber rt (JDecimal s) = Inr (StringToNumber rt s)"
| "ToNumber rt JSymbol = Inl TypeError"

section \<open>Customer types (packages/shared/src/customerTypes.ts)\<close>

text \<open>
  \<open>ORDERED_CUSTOMER_TYPES\<close> is an object literal, so reading a property of it finds its
  own six keys first and then the members it inherits from \<open>Object.prototype\<close>, which
  are functions (and, for \<open>__proto__\<close>, an object): values that are neither null nor
  undefined, and not numbers.
\<close>

datatype js_member = Num int | Inherited string

definition ORDERED_CUSTOMER_TYPES :: "(string \<times> int) list" where
  "ORDERED_CUSTOMER_TYPES =
     [(''NonCustomer'', 0), (''New'', 1), (''Infrequent'', 2),
      (''Occasional'', 3), (''Regular'', 4), (''Vip'', 5)]"

definition Object_prototype_keys :: "string list" where
  "Object_prototype_keys =
     [''constructor'', ''__defineGetter__'', ''__defineSetter__'', ''hasOwnProperty'',
      ''__lookupGetter__'', ''__lookupSetter__'', ''isPrototypeOf'',
      ''propertyIsEnumerable'', ''toString'', ''valueOf'', ''__proto__'',
      ''toLocaleString'']"

definition get_member :: "(string \<times> int) list \<Rightarrow> string \<Rightarrow> js_member nullable" where
  "get_member obj key =
     (case map_of obj key of
        Some n \<Rightarrow> Val (Num n)
      | None \<Rightarrow> if List.member Object_prototype_keys key then Val (Inherited key) else Undefined)"

text \<open>The operator \<open>a ?? b\<close>.\<close>

fun nullish :: "'a nullable \<Rightarrow> 'a \<Rightarrow> 'a" where
  "nullish (Val v) d = v"
| "nullish _ d = d"

definition customerTypeRank :: "string nullable \<Rightarrow> js_member" where
  "customerTypeRank t =
     (case t of
        Val s \<Rightarrow>
          if s = [] then Num 0
          else nullish (get_member ORDERED_CUSTOMER_TYPES s) (Num 0)
      | _ \<Rightarrow> Num 0)"

definition isTierEligible :: "int \<Rightarrow> int \<Rightarrow> bool" where
  "isTierEligible userRank tierMinRank = (userRank \<ge> tierMinRank)"

section \<open>Page size (filters.ts)\<close>

definition normalizeTake :: "int nullable \<Rightarrow> int" where
  "normalizeTake take_in = (let n = nullish take_in 20 in max 1 (min n 50))"

section \<open>Budget exhaustion (recompute.ts)\<close>

definition cashbackBudgetExhausted :: "js_runtime \<Rightarrow> jsval \<Rightarrow> jsval \<Rightarrow> bool" where
  "cashbackBudgetExhausted rt net used =
     (case ToNumber rt net of
        Inl e \<Rightarrow> True
      | Inr netNum \<Rightarrow>
          (case ToNumber rt used of
             Inl e \<Rightarrow> True
           | Inr usedNum \<Rightarrow> \<not> js_lt usedNum netNum))"

definition offerBudgetExhausted :: "js_runtime \<Rightarrow> jsval \<Rightarrow> jsval \<Rightarrow> bool" where
  "offerBudgetExhausted rt net used =
     (case ToNumber rt net of
        Inl e \<Rightarrow> True
      | Inr netNum \<Rightarrow>
          (case ToNumber rt used of
             Inl e \<Rightarrow> True
           | Inr usedNum \<Rightarrow> \<not> js_lt usedNum netNum))"

definition pointsLimitExhausted :: "js_runtime \<Rightarrow> jsval \<Rightarrow> jsval \<Rightarrow> bool" where
  "pointsLimitExhausted rt limit used =
     (if limit = JNull \<or> limit = JUndefined then False
      else case ToNumber rt limit of
             Inl e \<Rightarrow> True
           | Inr limitNum \<Rightarrow>
               (case ToNumber rt used of
                  Inl e \<Rightarrow> True
                | Inr usedNum \<Rightarrow> js_ge usedNum limitNum))"

section \<open>Cursors (filters.ts)\<close>

subsection \<open>Buffers: base64 and UTF-8\<close>

text \<open>
  A string is modelled by the bytes of its UTF-8 form (a \<open>char\<close> is a byte), so
  \<open>Buffer.from(s, "utf8")\<close> is the byte list itself, and splitting at a colon or comparing
  with the empty string reads the bytes as the source reads the characters (the byte
  \<open>0x3A\<close> only ever stands for a colon). \<open>utf8_wf\<close> is the table of well-formed byte
  sequences of the Unicode standard.
\<close>

definition utf8_cont :: "nat \<Rightarrow> bool" where
  "utf8_cont b = (128 \<le> b \<and> b \<le> 191)"

definition utf8_second3 :: "nat \<Rightarrow> nat \<Rightarrow> bool" where
  "utf8_second3 a b =
     (if a = 224 then 160 \<le> b \<and> b \<le> 191
      else if a = 237 then 128 \<le> b \<and> b \<le> 159
      else utf8_cont b)"

definition utf8_second4 :: "nat \<Rightarrow> nat \<Rightarrow> bool" where
  "utf8_second4 a b =
     (if a = 240 then 144 \<le> b \<and> b \<le> 191
      else if a = 244 then 128 \<le> b \<and> b \<le> 143
      else utf8_cont b)"

fun utf8_wf :: "nat list \<Rightarrow> bool" where
  "utf8_wf [] = True"
| "utf8_wf (a # bs) =
     (if a < 128 then utf8_wf bs
      else if 194 \<le> a \<and> a \<le> 223 then
        (case bs of b # r \<Rightarrow> utf8_cont b \<and> utf8_wf r | _ \<Rightarrow> False)
      else if 224 \<le> a \<and> a \<le> 239 then
        (case bs of b # c # r \<Rightarrow> utf8_second3 a b \<and> utf8_cont c \<and> utf8_wf r | _ \<Rightarrow> False)
      else if 240 \<le> a \<and> a \<le> 244 then
        (case bs of
           b # c # d # r \<Rightarrow> utf8_second4 a b \<and> utf8_cont c \<and> utf8_cont d \<and> utf8_wf r
         | _ \<Rightarrow> False)
      else False)"

definition well_formed :: "string \<Rightarrow> bool" where
  "well_formed s = utf8_wf (map of_char s)"

text \<open>\<open>buf.toString("utf8")\<close>.\<close>

definition toString_utf8 :: "js_runtime \<Rightarrow> string \<Rightarrow> string" where
  "toString_utf8 rt bytes = (if well_formed bytes then bytes else utf8_lossy rt bytes)"

text \<open>
  \<open>buf.toString("base64")\<close>: three bytes give four characters of the standard
  alphabet, and the last group is padded with \<open>=\<close>.
\<close>

definition b64_char :: "nat \<Rightarrow> char" where
  "b64_char i =
     (if i < 26 then char_of (65 + i)
      else if i < 52 then char_of (71 + i)
      else if i < 62 then char_of (i - 4)
      else if i = 62 then CHR ''+''
      else CHR ''/'')"

fun base64_encode :: "string \<Rightarrow> string" where
  "base64_encode [] = []"
| "base64_encode [a] =
     (let x = (of_char a :: nat)
      in [b64_char (x div 4), b64_char ((x mod 4) * 16), CHR ''='', CHR ''=''])"
| "base64_encode [a, b] =
     (let x = (of_char a :: nat); y = (of_char b :: nat)
      in [b64_char (x div 4), b64_char ((x mod 4) * 16 + y div 16),
          b64_char ((y mod 16) * 4), CHR ''=''])"
| "base64_encode (a # b # c # rest) =
     (let x = (of_char a :: nat); y = (of_char b :: nat); z = (of_char c :: nat)
      in [b64_char (x div 4), b64_char ((x mod 4) * 16 + y div 16),
          b64_char ((y mod 16) * 4 + z div 64), b64_char (z mod 64)])
     @ base64_encode rest"

text \<open>
  \<open>Buffer.from(s, "base64")\<close> never fails: it reads the standard and the URL-safe
  alphabet, skips every other character, and stops at the first \<open>=\<close>. Four sextets give
  three bytes; a trailing group of two or three sextets gives one or two bytes, and a
  single trailing sextet gives none. The definition is exact on texts whose characters
  are all below U+0100, as every text \<open>encodeCursor\<close> produces is; of a character above
  that, Node reads the low byte of each code unit, which the definition does not follow
  (it skips the bytes of the character).
\<close>

definition unbase64 :: "char \<Rightarrow> nat option" where
  "unbase64 c =
     (let n = (of_char c :: nat) in
      if 65 \<le> n \<and> n \<le> 90 then Some (n - 65)
      else if 97 \<le> n \<and> n \<le> 122 then Some (n - 71)
      else if 48 \<le> n \<and> n \<le> 57 then Some (n + 4)
      else if c = CHR ''+'' \<or> c = CHR ''-'' then Some 62
      else if c = CHR ''/'' \<or> c = CHR ''_'' then Some 63
      else None)"

fun sextets_to_bytes :: "nat list \<Rightarrow> string" where
  "sextets_to_bytes (w # x # y # z # rest) =
     [char_of (w * 4 + x div 16), char_of ((x mod 16) * 16 + y div 4),
      char_of ((y mod 4) * 64 + z)] @ sextets_to_bytes rest"
| "sextets_to_bytes [w, x, y] =
     [char_of (w * 4 + x div 16), char_of ((x mod 16) * 16 + y div 4)]"
| "sextets_to_bytes [w, x] = [char_of (w * 4 + x div 16)]"
| "sextets_to_bytes _ = []"

definition dec_chars :: "string \<Rightarrow> nat list" where
  "dec_chars cs = List.map_filter unbase64 (takeWhile (\<lambda>c. c \<noteq> CHR ''='') cs)"

definition base64_decode :: "string \<Rightarrow> string" where
  "base64_decode s = sextets_to_bytes (dec_chars s)"

subsection \<open>\<open>String.prototype.split\<close> with a one-character separator\<close>

text \<open>The result always has at least one part: \<open>"".split(":")\<close> is \<open>[""]\<close>.\<close>

fun split :: "char \<Rightarrow> string \<Rightarrow> string list" where
  "split sep [] = [[]]"
| "split sep (c # cs) =
     (if c = sep then [] # split sep cs
      else (case split sep cs of
              [] \<Rightarrow> [[c]]
            | p # ps \<Rightarrow> (c # p) # ps))"

subsection \<open>decodeCursor and encodeCursor\<close>

record cursor =
  sortKey :: jsnum
  outletId :: string

text \<open>
  \<open>const [sortKeyStr, outletId] = raw.split(":")\<close> takes the first two parts; the second
  is undefined when there is no colon. \<open>!outletId\<close> holds for undefined and for the empty
  string.
\<close>

definition decodeCursor :: "js_runtime \<Rightarrow> string nullable \<Rightarrow> cursor option" where
  "decodeCursor rt c =
     (case c of
        Val text \<Rightarrow>
          if text = [] then None
          else
            (let raw = toString_utf8 rt (base64_decode text);
                 parts = split CHR '':'' raw;
                 sortKeyStr = hd parts;
                 outletId = (case tl parts of [] \<Rightarrow> Undefined | p # ps \<Rightarrow> Val p);
                 sortKey = StringToNumber rt sortKeyStr
             in case outletId of
                  Val oid \<Rightarrow>
                    if \<not> isFinite sortKey \<or> oid = [] then None
                    else Some \<lparr>sortKey = sortKey, outletId = oid\<rparr>
                | _ \<Rightarrow> None)
      | _ \<Rightarrow> None)"

text \<open>
  \<open>encodeCursor\<close> is called with the integer sort key of a result row, a value of a
  32-bit column or 0; the template literal prints such a number in decimal digits (an
  exponent appears only from \<open>1e21\<close> on, where the definition does not follow).
\<close>

definition encodeCursor :: "int \<Rightarrow> string \<Rightarrow> string" where
  "encodeCursor k oid = base64_encode (int_to_string k @ CHR '':'' # oid)"

section \<open>The data model\<close>

text \<open>
  Times are instants on one clock, as integers. A relation that Prisma loads with
  \<open>include\<close>, or that the SQL reaches through a key, is stored with the row that holds it:
  the review of a row is the joined \<open>Review\<close> row or nothing.
\<close>

type_synonym timestamp = int

record Review =
  review_status :: string

subsection \<open>Source entities\<close>

record CashbackConfigurationTier =
  cct_isActive :: bool
  cct_deletedAt :: "timestamp option"
  cct_Review :: "Review option"
  cct_percentage :: int

record CashbackConfiguration =
  cc_id :: string
  cc_merchantId :: string
  cc_isActive :: bool
  cc_deletedAt :: "timestamp option"
  cc_startDate :: "timestamp option"
  cc_endDate :: "timestamp option"
  cc_eligibleCustomerTypes :: "string list"
  cc_netCashbackBudget :: jsval
  cc_usedCashbackBudget :: jsval
  cc_Review :: "Review option"
  cc_Outlets :: "string list"
  cc_CashbackConfigurationTiers :: "CashbackConfigurationTier list"

record ExclusiveOffer =
  eo_id :: string
  eo_merchantId :: "string option"
  eo_Merchant :: "string option"
  eo_isActive :: bool
  eo_deletedAt :: "timestamp option"
  eo_startDate :: "timestamp option"
  eo_endDate :: "timestamp option"
  eo_eligibleCustomerTypes :: "string list"
  eo_netOfferBudget :: jsval
  eo_usedOfferBudget :: jsval
  eo_Review :: "Review option"
  eo_Outlets :: "string list"

record LoyaltyTier =
  lt_isActive :: bool
  lt_deletedAt :: "timestamp option"
  lt_Review :: "Review option"
  lt_minCustomerType :: "string nullable"

record MerchantLoyaltyReward =
  mlr_isActive :: bool
  mlr_Review :: "Review option"

record LoyaltyProgram =
  lp_id :: string
  lp_isActive :: bool
  lp_Review :: "Review option"
  lp_pointsIssuedLimit :: jsval
  lp_pointsUsedInPeriod :: jsval
  lp_LoyaltyTiers :: "LoyaltyTier list"
  lp_MerchantLoyaltyRewards :: "MerchantLoyaltyReward list"

record Merchant =
  m_id :: string
  m_businessName :: string
  m_status :: string
  m_category :: string
  m_LoyaltyProgram :: "LoyaltyProgram option"

record Outlet =
  o_id :: string
  o_name :: string
  o_description :: "string option"
  o_isActive :: bool
  o_merchantId :: string
  o_Review :: "Review option"

record PaybillOrTill =
  pt_outletId :: string
  pt_isActive :: bool
  pt_deletedAt :: "timestamp option"
  pt_Review :: "Review option"

record CustomerType =
  ct_userId :: string
  ct_merchantId :: string
  ct_type :: string

subsection \<open>Index tables\<close>

text \<open>
  The columns are those of the migration. \<open>updatedAt\<close> is kept by the persistence layer,
  whose schema is not among the sources, and is left out.
\<close>

datatype OfferKind = CASHBACK | EXCLUSIVE | LOYALTY

record OfferIndex =
  oi_id :: string
  oi_kind :: OfferKind
  oi_merchantId :: string
  oi_cashbackConfigurationId :: "string option"
  oi_exclusiveOfferId :: "string option"
  oi_loyaltyProgramId :: "string option"
  oi_isActiveSnapshot :: bool
  oi_isApprovedSnapshot :: bool
  oi_deletedAtSnapshot :: "timestamp option"
  oi_budgetExhausted :: bool
  oi_startDate :: "timestamp option"
  oi_endDate :: "timestamp option"
  oi_maxCashbackPercentBps :: "int option"
  oi_computedAt :: timestamp

record OfferIndexCustomerType =
  ect_id :: string
  ect_offerIndexId :: string
  ect_customerType :: string

record OfferIndexOutlet =
  oio_id :: string
  oio_offerIndexId :: string
  oio_outletId :: string

record LoyaltyTierIndex =
  lti_id :: string
  lti_offerIndexId :: string
  lti_tierRank :: int
  lti_isActiveSnapshot :: bool
  lti_isApprovedSnapshot :: bool
  lti_deletedAtSnapshot :: "timestamp option"

record UserMerchantProfile =
  ump_id :: string
  ump_userId :: string
  ump_merchantId :: string
  ump_customerType :: string
  ump_rank :: int
  ump_computedAt :: timestamp

text \<open>
  The store. Tables are lists of rows. Row ids are generated by the persistence layer; the
  model draws them from a counter.
\<close>

record database =
  db_offerIndex :: "OfferIndex list"
  db_offerIndexCustomerType :: "OfferIndexCustomerType list"
  db_offerIndexOutlet :: "OfferIndexOutlet list"
  db_loyaltyTierIndex :: "LoyaltyTierIndex list"
  db_userMerchantProfile :: "UserMerchantProfile list"
  db_cashbackConfiguration :: "CashbackConfiguration list"
  db_exclusiveOffer :: "ExclusiveOffer list"
  db_merchant :: "Merchant list"
  db_outlet :: "Outlet list"
  db_paybillOrTill :: "PaybillOrTill list"
  db_customerType :: "CustomerType list"
  db_nextId :: nat

definition fresh_id :: "nat \<Rightarrow> string" where
  "fresh_id n = CHR ''#'' # digits n"

text \<open>
  \<open>upsert\<close> on \<open>OfferIndex\<close>: the row the unique key finds is updated in place, and
  a new row is created otherwise; the result is the row's id.
\<close>

fun update_first :: "('a \<Rightarrow> bool) \<Rightarrow> ('a \<Rightarrow> 'a) \<Rightarrow> 'a list \<Rightarrow> 'a list" where
  "update_first P f [] = []"
| "update_first P f (x # xs) = (if P x then f x # xs else x # update_first P f xs)"

definition upsert_offerIndex ::
  "(OfferIndex \<Rightarrow> bool) \<Rightarrow> (OfferIndex \<Rightarrow> OfferIndex) \<Rightarrow> (string \<Rightarrow> OfferIndex) \<Rightarrow>
   database \<Rightarrow> string \<times> database" where
  "upsert_offerIndex key_matches update create db =
     (case find key_matches (db_offerIndex db) of
        Some row \<Rightarrow>
          (oi_id row, db\<lparr>db_offerIndex := update_first key_matches update (db_offerIndex db)\<rparr>)
      | None \<Rightarrow>
          (fresh_id (db_nextId db),
           db\<lparr>db_offerIndex := db_offerIndex db @ [create (fresh_id (db_nextId db))],
              db_nextId := Suc (db_nextId db)\<rparr>))"

text \<open>\<open>createMany\<close> gives each new row an id: the rows are numbered from the counter.\<close>

definition numbered :: "nat \<Rightarrow> 'a list \<Rightarrow> (string \<times> 'a) list" where
  "numbered n xs = zip (map fresh_id [n ..< n + length xs]) xs"

text \<open>\<open>skipDuplicates: true\<close> keeps the first of the rows that collide on a unique key.\<close>

fun skipDuplicates :: "'a list \<Rightarrow> 'a list" where
  "skipDuplicates [] = []"
| "skipDuplicates (x # xs) = x # skipDuplicates (filter (\<lambda>y. y \<noteq> x) xs)"

section \<open>The recompute engine (recompute.ts)\<close>

definition isApproved :: "Review option \<Rightarrow> bool" where
  "isApproved review = (case review of Some r \<Rightarrow> review_status r = ''Approved'' | None \<Rightarrow> False)"

text \<open>
  A recompute operation returns the store it leaves behind and the error it threw, if any.
  The writes made before a throw stay, except those of a \<open>$transaction\<close>, which are all
  kept or all dropped.
\<close>

type_synonym outcome = "js_error option \<times> database"

text \<open>
  The transaction both \<open>rebuildCashbackIndex\<close> and \<open>rebuildExclusiveIndex\<close> run on the
  children of the index row \<open>oid\<close>. The customer-type rows are created without
  \<open>skipDuplicates\<close>, so a type listed twice violates the unique index on
  (offerIndexId, customerType) and the transaction fails.
\<close>

definition replace_offer_children :: "string \<Rightarrow> string list \<Rightarrow> string list \<Rightarrow> database \<Rightarrow> outcome" where
  "replace_offer_children oid customerTypes outletIds db =
     (let ects = filter (\<lambda>r. ect_offerIndexId r \<noteq> oid) (db_offerIndexCustomerType db);
          oios = filter (\<lambda>r. oio_offerIndexId r \<noteq> oid) (db_offerIndexOutlet db);
          n = db_nextId db;
          new_ects = map (\<lambda>(i, ct). \<lparr>ect_id = i, ect_offerIndexId = oid, ect_customerType = ct\<rparr>)
                       (numbered n customerTypes);
          outs = skipDuplicates outletIds;
          new_oios = map (\<lambda>(i, out). \<lparr>oio_id = i, oio_offerIndexId = oid, oio_outletId = out\<rparr>)
                       (numbered (n + length customerTypes) outs)
      in if \<not> distinct customerTypes then (Some UniqueConstraintViolation, db)
         else (None, db\<lparr>db_offerIndexCustomerType := ects @ new_ects,
                         db_offerIndexOutlet := oios @ new_oios,
                         db_nextId := n + length customerTypes + length outs\<rparr>))"

definition rebuildCashbackIndex :: "js_runtime \<Rightarrow> timestamp \<Rightarrow> database \<Rightarrow> string \<Rightarrow> outcome" where
  "rebuildCashbackIndex rt now db cashbackConfigurationId =
     (case find (\<lambda>c. cc_id c = cashbackConfigurationId) (db_cashbackConfiguration db) of
        None \<Rightarrow> (None, db)
      | Some cc \<Rightarrow>
          (let tiers = filter (\<lambda>t. cct_isActive t \<and> cct_deletedAt t = None \<and> isApproved (cct_Review t))
                         (cc_CashbackConfigurationTiers cc);
               maxBps = foldl (\<lambda>m t. max m (cct_percentage t)) 0 tiers;
               exhausted = cashbackBudgetExhausted rt (cc_netCashbackBudget cc) (cc_usedCashbackBudget cc);
               (index_id, db1) =
                 upsert_offerIndex
                   (\<lambda>r. oi_cashbackConfigurationId r = Some cashbackConfigurationId)
                   (\<lambda>r. r\<lparr>oi_kind := CASHBACK,
                           oi_merchantId := cc_merchantId cc,
                           oi_isActiveSnapshot := cc_isActive cc,
                           oi_isApprovedSnapshot := isApproved (cc_Review cc),
                           oi_deletedAtSnapshot := cc_deletedAt cc,
                           oi_budgetExhausted := exhausted,
                           oi_startDate := cc_startDate cc,
                           oi_endDate := cc_endDate cc,
                           oi_maxCashbackPercentBps := Some maxBps,
                           oi_computedAt := now\<rparr>)
                   (\<lambda>i. \<lparr>oi_id = i,
                          oi_kind = CASHBACK,
                          oi_merchantId = cc_merchantId cc,
                          oi_cashbackConfigurationId = Some (cc_id cc),
                          oi_exclusiveOfferId = None,
                          oi_loyaltyProgramId = None,
                          oi_isActiveSnapshot = cc_isActive cc,
                          oi_isApprovedSnapshot = isApproved (cc_Review cc),
                          oi_deletedAtSnapshot = cc_deletedAt cc,
                          oi_budgetExhausted = exhausted,
                          oi_startDate = cc_startDate cc,
                          oi_endDate = cc_endDate cc,
                          oi_maxCashbackPercentBps = Some maxBps,
                          oi_computedAt = now\<rparr>)
                   db
           in replace_offer_children index_id (cc_eligibleCustomerTypes cc) (cc_Outlets cc) db1))"

definition rebuildExclusiveIndex :: "js_runtime \<Rightarrow> timestamp \<Rightarrow> database \<Rightarrow> string \<Rightarrow> outcome" where
  "rebuildExclusiveIndex rt now db exclusiveOfferId =
     (case find (\<lambda>e. eo_id e = exclusiveOfferId) (db_exclusiveOffer db) of
        None \<Rightarrow> (None, db)
      | Some eo \<Rightarrow>
          (case (case eo_merchantId eo of Some m \<Rightarrow> Some m | None \<Rightarrow> eo_Merchant eo) of
             None \<Rightarrow> (None, db)
           | Some merchantId \<Rightarrow>
               if merchantId = [] then (None, db)
               else
                 (let exhausted = offerBudgetExhausted rt (eo_netOfferBudget eo) (eo_usedOfferBudget eo);
                      (index_id, db1) =
                        upsert_offerIndex
                          (\<lambda>r. oi_exclusiveOfferId r = Some exclusiveOfferId)
                          (\<lambda>r. r\<lparr>oi_kind := EXCLUSIVE,
                                  oi_merchantId := merchantId,
                                  oi_isActiveSnapshot := eo_isActive eo,
                                  oi_isApprovedSnapshot := isApproved (eo_Review eo),
                                  oi_deletedAtSnapshot := eo_deletedAt eo,
                                  oi_budgetExhausted := exhausted,
                                  oi_startDate := eo_startDate eo,
                                  oi_endDate := eo_endDate eo,
                                  oi_maxCashbackPercentBps := None,
                                  oi_computedAt := now\<rparr>)
                          (\<lambda>i. \<lparr>oi_id = i,
                                 oi_kind = EXCLUSIVE,
                                 oi_merchantId = merchantId,
                                 oi_cashbackConfigurationId = None,
                                 oi_exclusiveOfferId = Some (eo_id eo),
                                 oi_loyaltyProgramId = None,
                                 oi_isActiveSnapshot = eo_isActive eo,
                                 oi_isApprovedSnapshot = isApproved (eo_Review eo),
                                 oi_deletedAtSnapshot = eo_deletedAt eo,
                                 oi_budgetExhausted = exhausted,
                                 oi_startDate = eo_startDate eo,
                                 oi_endDate = eo_endDate eo,
                                 oi_maxCashbackPercentBps = None,
                                 oi_computedAt = now\<rparr>)
                          db
                  in replace_offer_children index_id (eo_eligibleCustomerTypes eo) (eo_Outlets eo) db1)))"

text \<open>
  A rank is written to an integer column. \<open>customerTypeRank\<close> can return a value that is
  not a number; the persistence layer rejects such a row before anything is written.
\<close>

fun rank_numbers :: "js_member list \<Rightarrow> int list option" where
  "rank_numbers [] = Some []"
| "rank_numbers (Num n # rs) = map_option (\<lambda>ns. n # ns) (rank_numbers rs)"
| "rank_numbers (Inherited k # rs) = None"

definition replace_loyalty_children :: "string \<Rightarrow> string list \<Rightarrow> js_member list \<Rightarrow> database \<Rightarrow> outcome" where
  "replace_loyalty_children oid outletIds ranks db =
     (let oios = filter (\<lambda>r. oio_offerIndexId r \<noteq> oid) (db_offerIndexOutlet db);
          ltis = filter (\<lambda>r. lti_offerIndexId r \<noteq> oid) (db_loyaltyTierIndex db);
          n = db_nextId db;
          outs = skipDuplicates outletIds;
          new_oios = map (\<lambda>(i, out). \<lparr>oio_id = i, oio_offerIndexId = oid, oio_outletId = out\<rparr>)
                       (numbered n outs)
      in case rank_numbers ranks of
           None \<Rightarrow> (Some PrismaValidationError, db)
         | Some tierRanks \<Rightarrow>
             (None,
              db\<lparr>db_offerIndexOutlet := oios @ new_oios,
                 db_loyaltyTierIndex := ltis @
                   map (\<lambda>(i, rank). \<lparr>lti_id = i, lti_offerIndexId = oid, lti_tierRank = rank,
                                      lti_isActiveSnapshot = True, lti_isApprovedSnapshot = True,
                                      lti_deletedAtSnapshot = None\<rparr>)
                     (numbered (n + length outs) tierRanks),
                 db_nextId := n + length outs + length tierRanks\<rparr>))"

definition activeApprovedTierRanks :: "LoyaltyProgram \<Rightarrow> js_member list" where
  "activeApprovedTierRanks lp =
     map (\<lambda>t. customerTypeRank (lt_minCustomerType t))
       (filter (\<lambda>t. lt_isActive t \<and> lt_deletedAt t = None \<and> isApproved (lt_Review t))
          (lp_LoyaltyTiers lp))"

definition hasRewards :: "LoyaltyProgram \<Rightarrow> bool" where
  "hasRewards lp = list_ex (\<lambda>r. mlr_isActive r \<and> isApproved (mlr_Review r)) (lp_MerchantLoyaltyRewards lp)"

definition rebuildLoyaltyIndexByMerchant :: "js_runtime \<Rightarrow> timestamp \<Rightarrow> database \<Rightarrow> string \<Rightarrow> outcome" where
  "rebuildLoyaltyIndexByMerchant rt now db merchantId =
     (case find (\<lambda>m. m_id m = merchantId) (db_merchant db) of
        None \<Rightarrow> (None, db)
      | Some merchant \<Rightarrow>
          (case m_LoyaltyProgram merchant of
             None \<Rightarrow> (None, db)
           | Some lp \<Rightarrow>
               (let exhausted = pointsLimitExhausted rt (lp_pointsIssuedLimit lp) (lp_pointsUsedInPeriod lp);
                    ranks = activeApprovedTierRanks lp;
                    isApprovedSnapshot = (isApproved (lp_Review lp) \<and> hasRewards lp \<and> length ranks > 0);
                    (index_id, db1) =
                      upsert_offerIndex
                        (\<lambda>r. oi_loyaltyProgramId r = Some (lp_id lp))
                        (\<lambda>r. r\<lparr>oi_kind := LOYALTY,
                                oi_merchantId := merchantId,
                                oi_isActiveSnapshot := lp_isActive lp,
                                oi_isApprovedSnapshot := isApprovedSnapshot,
                                oi_deletedAtSnapshot := None,
                                oi_budgetExhausted := exhausted,
                                oi_startDate := None,
                                oi_endDate := None,
                                oi_maxCashbackPercentBps := None,
                                oi_computedAt := now\<rparr>)
                        (\<lambda>i. \<lparr>oi_id = i,
                               oi_kind = LOYALTY,
                               oi_merchantId = merchantId,
                               oi_cashbackConfigurationId = None,
                               oi_exclusiveOfferId = None,
                               oi_loyaltyProgramId = Some (lp_id lp),
                               oi_isActiveSnapshot = lp_isActive lp,
                               oi_isApprovedSnapshot = isApprovedSnapshot,
                               oi_deletedAtSnapshot = None,
                               oi_budgetExhausted = exhausted,
                               oi_startDate = None,
                               oi_endDate = None,
                               oi_maxCashbackPercentBps = None,
                               oi_computedAt = now\<rparr>)
                        db;
                    outletIds = map o_id (filter (\<lambda>out. o_merchantId out = merchantId) (db_outlet db))
                in replace_loyalty_children index_id outletIds ranks db1)))"

text \<open>
  \<open>rebuildUserMerchantProfilesForUser\<close> deletes the user's profile rows first, outside any
  transaction, and then creates the current ones (one per customer-type row, unique on
  (userId, merchantId)).
\<close>

definition rebuildUserMerchantProfilesForUser :: "js_runtime \<Rightarrow> timestamp \<Rightarrow> database \<Rightarrow> string \<Rightarrow> outcome" where
  "rebuildUserMerchantProfilesForUser rt now db userId =
     (let rows = filter (\<lambda>r. ct_userId r = userId) (db_customerType db);
          db1 = db\<lparr>db_userMerchantProfile :=
                    filter (\<lambda>p. ump_userId p \<noteq> userId) (db_userMerchantProfile db)\<rparr>
      in if rows = [] then (None, db1)
         else
           (case rank_numbers (map (\<lambda>r. customerTypeRank (Val (ct_type r))) rows) of
              None \<Rightarrow> (Some PrismaValidationError, db1)
            | Some ranks \<Rightarrow>
                if \<not> distinct (map ct_merchantId rows) then (Some UniqueConstraintViolation, db1)
                else
                  (None,
                   db1\<lparr>db_userMerchantProfile := db_userMerchantProfile db1 @
                         map (\<lambda>(i, r, rank).
                                \<lparr>ump_id = i, ump_userId = userId, ump_merchantId = ct_merchantId r,
                                 ump_customerType = ct_type r, ump_rank = rank, ump_computedAt = now\<rparr>)
                           (numbered (db_nextId db1) (zip rows ranks)),
                       db_nextId := db_nextId db1 + length rows\<rparr>)))"

section \<open>The resolution query (offers resolver and offer loaders)\<close>

subsection \<open>SQL truth values\<close>

text \<open>
  A comparison with NULL is NULL (here \<open>None\<close>); \<open>AND\<close> and \<open>OR\<close> follow the
  three-valued tables, and \<open>WHERE\<close> keeps a row only when its condition is true.
\<close>

type_synonym sql_bool = "bool option"

fun sql_and :: "sql_bool \<Rightarrow> sql_bool \<Rightarrow> sql_bool" where
  "sql_and (Some False) _ = Some False"
| "sql_and _ (Some False) = Some False"
| "sql_and (Some True) (Some True) = Some True"
| "sql_and _ _ = None"

fun sql_or :: "sql_bool \<Rightarrow> sql_bool \<Rightarrow> sql_bool" where
  "sql_or (Some True) _ = Some True"
| "sql_or _ (Some True) = Some True"
| "sql_or (Some False) (Some False) = Some False"
| "sql_or _ _ = None"

fun sql_le :: "timestamp option \<Rightarrow> timestamp option \<Rightarrow> sql_bool" where
  "sql_le (Some a) (Some b) = Some (a \<le> b)"
| "sql_le _ _ = None"

definition sql_is_null :: "'a option \<Rightarrow> sql_bool" where
  "sql_is_null v = Some (v = None)"

definition is_true :: "sql_bool \<Rightarrow> bool" where
  "is_true b = (b = Some True)"

subsection \<open>The predicates the two queries share\<close>

text \<open>\<open>WITH profile AS (...)\<close> and \<open>LEFT JOIN profile p ON p."merchantId" = oi."merchantId"\<close>.\<close>

definition profile :: "database \<Rightarrow> string \<Rightarrow> UserMerchantProfile list" where
  "profile db userId = filter (\<lambda>p. ump_userId p = userId) (db_userMerchantProfile db)"

definition left_join_profile :: "UserMerchantProfile list \<Rightarrow> OfferIndex \<Rightarrow> UserMerchantProfile option list" where
  "left_join_profile prof oi =
     (case filter (\<lambda>p. ump_merchantId p = oi_merchantId oi) prof of
        [] \<Rightarrow> [None]
      | ps \<Rightarrow> map Some ps)"

definition snapshot_gate :: "OfferIndex \<Rightarrow> bool" where
  "snapshot_gate oi =
     (oi_isActiveSnapshot oi \<and> oi_isApprovedSnapshot oi \<and> oi_deletedAtSnapshot oi = None \<and>
      \<not> oi_budgetExhausted oi)"

definition date_window :: "timestamp \<Rightarrow> OfferIndex \<Rightarrow> sql_bool" where
  "date_window now oi =
     sql_or (sql_and (sql_is_null (oi_startDate oi)) (sql_is_null (oi_endDate oi)))
            (sql_and (sql_le (oi_startDate oi) (Some now)) (sql_le (Some now) (oi_endDate oi)))"

definition exists_customerType :: "database \<Rightarrow> string \<Rightarrow> string \<Rightarrow> bool" where
  "exists_customerType db oid ct =
     list_ex (\<lambda>e. ect_offerIndexId e = oid \<and> ect_customerType e = ct) (db_offerIndexCustomerType db)"

definition all_match :: "database \<Rightarrow> OfferIndex \<Rightarrow> bool" where
  "all_match db oi = exists_customerType db (oi_id oi) ''All''"

definition type_match :: "database \<Rightarrow> OfferIndex \<Rightarrow> UserMerchantProfile option \<Rightarrow> bool" where
  "type_match db oi p =
     (case p of
        Some pr \<Rightarrow> exists_customerType db (oi_id oi) (ump_customerType pr)
      | None \<Rightarrow> False)"

definition noncustomer_match :: "database \<Rightarrow> OfferIndex \<Rightarrow> UserMerchantProfile option \<Rightarrow> bool" where
  "noncustomer_match db oi p =
     (case p of
        Some pr \<Rightarrow> False
      | None \<Rightarrow> exists_customerType db (oi_id oi) ''NonCustomer'')"

definition customer_type_rule :: "database \<Rightarrow> OfferIndex \<Rightarrow> UserMerchantProfile option \<Rightarrow> bool" where
  "customer_type_rule db oi p = (all_match db oi \<or> type_match db oi p \<or> noncustomer_match db oi p)"

definition tier_rule :: "database \<Rightarrow> OfferIndex \<Rightarrow> UserMerchantProfile option \<Rightarrow> bool" where
  "tier_rule db oi p =
     list_ex (\<lambda>t. lti_offerIndexId t = oi_id oi \<and> lti_isActiveSnapshot t \<and> lti_isApprovedSnapshot t \<and>
                   lti_deletedAtSnapshot t = None \<and>
                   lti_tierRank t \<le> (case p of Some pr \<Rightarrow> ump_rank pr | None \<Rightarrow> 0))
       (db_loyaltyTierIndex db)"

subsection \<open>The offers resolver's query\<close>

definition coalesce :: "'a option \<Rightarrow> 'a \<Rightarrow> 'a" where
  "coalesce v d = (case v of Some x \<Rightarrow> x | None \<Rightarrow> d)"

definition percentage_filter :: "int option \<Rightarrow> int option \<Rightarrow> OfferIndex \<Rightarrow> bool" where
  "percentage_filter minBps maxBps oi =
     ((case minBps of None \<Rightarrow> True | Some lo \<Rightarrow> coalesce (oi_maxCashbackPercentBps oi) 0 \<ge> lo) \<and>
      (case maxBps of None \<Rightarrow> True | Some hi \<Rightarrow> coalesce (oi_maxCashbackPercentBps oi) 0 \<le> hi))"

definition cashback_or_exclusive_where ::
  "database \<Rightarrow> timestamp \<Rightarrow> int option \<Rightarrow> int option \<Rightarrow> OfferIndex \<Rightarrow> UserMerchantProfile option \<Rightarrow> bool" where
  "cashback_or_exclusive_where db now minBps maxBps oi p =
     ((oi_kind oi = CASHBACK \<or> oi_kind oi = EXCLUSIVE) \<and> snapshot_gate oi \<and>
      is_true (date_window now oi) \<and> percentage_filter minBps maxBps oi \<and>
      customer_type_rule db oi p)"

definition eligible_cashback_or_exclusive ::
  "database \<Rightarrow> string \<Rightarrow> timestamp \<Rightarrow> int option \<Rightarrow> int option \<Rightarrow> (string \<times> int) list" where
  "eligible_cashback_or_exclusive db userId now minBps maxBps =
     remdups
       [(oio_outletId oio, coalesce (oi_maxCashbackPercentBps oi) 0).
          oi \<leftarrow> db_offerIndex db,
          oio \<leftarrow> db_offerIndexOutlet db, oio_offerIndexId oio = oi_id oi,
          p \<leftarrow> left_join_profile (profile db userId) oi,
          cashback_or_exclusive_where db now minBps maxBps oi p]"

definition loyalty_where :: "database \<Rightarrow> OfferIndex \<Rightarrow> UserMerchantProfile option \<Rightarrow> bool" where
  "loyalty_where db oi p = (oi_kind oi = LOYALTY \<and> snapshot_gate oi \<and> tier_rule db oi p)"

definition eligible_loyalty :: "database \<Rightarrow> string \<Rightarrow> (string \<times> int) list" where
  "eligible_loyalty db userId =
     remdups
       [(oio_outletId oio, 0).
          oi \<leftarrow> db_offerIndex db,
          oio \<leftarrow> db_offerIndexOutlet db, oio_offerIndexId oio = oi_id oi,
          p \<leftarrow> left_join_profile (profile db userId) oi,
          loyalty_where db oi p]"

text \<open>\<open>UNION\<close> removes duplicate rows.\<close>

definition eligible_outlets ::
  "database \<Rightarrow> string \<Rightarrow> timestamp \<Rightarrow> int option \<Rightarrow> int option \<Rightarrow> (string \<times> int) list" where
  "eligible_outlets db userId now minBps maxBps =
     remdups (eligible_cashback_or_exclusive db userId now minBps maxBps @ eligible_loyalty db userId)"

definition escapeLike :: "string \<Rightarrow> string" where
  "escapeLike input =
     concat (map (\<lambda>c. if c = CHR 0x5C \<or> c = CHR ''%'' \<or> c = CHR ''_'' then [CHR 0x5C, c] else [c]) input)"

text \<open>
  A JavaScript string is truthy when it is not empty: the category and the search
  conditions are part of the query only then.
\<close>

definition static_filters :: "js_runtime \<Rightarrow> database \<Rightarrow> string option \<Rightarrow> string option \<Rightarrow> Outlet \<Rightarrow> Merchant \<Rightarrow> bool" where
  "static_filters rt db category search out m =
     (o_isActive out \<and> isApproved (o_Review out) \<and> m_status m = ''Active'' \<and>
      (case category of
         None \<Rightarrow> True
       | Some cat \<Rightarrow> cat = [] \<or> m_category m = cat) \<and>
      (case search of
         None \<Rightarrow> True
       | Some text \<Rightarrow>
           text = [] \<or>
           (let pattern = ''%'' @ escapeLike text @ ''%''
            in ilike rt (o_name out) pattern \<or> ilike rt (coalesce (o_description out) []) pattern \<or>
               ilike rt (m_businessName m) pattern)) \<and>
      list_ex (\<lambda>pt. pt_outletId pt = o_id out \<and> pt_isActive pt \<and> pt_deletedAt pt = None \<and>
                    isApproved (pt_Review pt))
        (db_paybillOrTill db))"

text \<open>
  The joined rows, grouped by outlet with \<open>MAX(eo."sortKey")\<close>: before the order and the
  limit, this is the set of eligible outlets, each with its sort key.
\<close>

definition joined_rows ::
  "js_runtime \<Rightarrow> database \<Rightarrow> string \<Rightarrow> timestamp \<Rightarrow> int option \<Rightarrow> int option \<Rightarrow>
   string option \<Rightarrow> string option \<Rightarrow> (string \<times> int) list" where
  "joined_rows rt db userId now minBps maxBps category search =
     [eo. eo \<leftarrow> eligible_outlets db userId now minBps maxBps,
          out \<leftarrow> db_outlet db, o_id out = fst eo,
          m \<leftarrow> db_merchant db, m_id m = o_merchantId out,
          static_filters rt db category search out m]"

definition group_max :: "(string \<times> int) list \<Rightarrow> (string \<times> int) list" where
  "group_max rows =
     map (\<lambda>k. (k, Max (set (map snd (filter (\<lambda>r. fst r = k) rows))))) (remdups (map fst rows))"

definition eligible_rows ::
  "js_runtime \<Rightarrow> database \<Rightarrow> string \<Rightarrow> timestamp \<Rightarrow> int option \<Rightarrow> int option \<Rightarrow>
   string option \<Rightarrow> string option \<Rightarrow> (string \<times> int) list" where
  "eligible_rows rt db userId now minBps maxBps category search =
     group_max (joined_rows rt db userId now minBps maxBps category search)"

text \<open>\<open>ORDER BY "sortKey" DESC, eo."outletId" ASC\<close>; outlet ids are ordered as texts.\<close>

definition order_key :: "string \<times> int \<Rightarrow> int \<times> string" where
  "order_key row = (- snd row, fst row)"

subsection \<open>The statement the resolver sends\<close>

text \<open>
  The resolver builds its statement with the tagged template \<open>ctx.prisma.$queryRaw\<close>.
  Three of the values it interpolates are \<open>ctx.prisma.$queryRaw\<close> templates themselves:
  the category condition, the search condition and the cursor condition, each of them
  the empty template when its input is absent (a JavaScript string is falsy when empty,
  a decoded cursor when null).
\<close>

datatype nested_template =
    EmptyTemplate
  | CategoryCondition string
  | SearchCondition string
  | CursorCondition cursor

definition nested_templates ::
  "string option \<Rightarrow> string option \<Rightarrow> cursor option \<Rightarrow> nested_template list" where
  "nested_templates category search c =
     [case category of
        None \<Rightarrow> EmptyTemplate
      | Some cat \<Rightarrow> if cat = [] then EmptyTemplate else CategoryCondition cat,
      case search of
        None \<Rightarrow> EmptyTemplate
      | Some text \<Rightarrow> if text = [] then EmptyTemplate else SearchCondition text,
      case c of
        None \<Rightarrow> EmptyTemplate
      | Some cur \<Rightarrow> CursorCondition cur]"

text \<open>
  What becomes of a nested template depends on the client in \<open>ctx.prisma\<close>:
  \<^item> \<open>Bound\<close>: the generated client. The value of a nested \<open>$queryRaw\<close> is a promise, and
    the client binds every interpolated value that is not a \<open>Prisma.Sql\<close> as a query
    parameter. The statement then holds a placeholder where each nested template stands,
    the empty ones too, directly after a complete condition, and PostgreSQL rejects it
    as a syntax error (SQLSTATE 42601).
  \<^item> \<open>Spliced\<close>: a client that puts the text and the parameters of a nested template
    in its place, which is what the layout of the statement expects (the resolver's unit
    test runs on a client of its own). In that statement the cursor condition stands
    among the conditions of \<open>WHERE\<close> and names the aggregate \<open>MAX(eo."sortKey")\<close>;
    PostgreSQL allows no aggregate function there (SQLSTATE 42803).
  A statement that is rejected returns no rows: the call throws.
\<close>

datatype interpolation = Bound | Spliced

datatype sqlstate = Syntax_error_42601 | Grouping_error_42803

fun names_aggregate :: "nested_template \<Rightarrow> bool" where
  "names_aggregate (CursorCondition c) = True"
| "names_aggregate _ = False"

definition prepare :: "interpolation \<Rightarrow> nested_template list \<Rightarrow> sqlstate option" where
  "prepare client templates =
     (case client of
        Bound \<Rightarrow> if templates = [] then None else Some Syntax_error_42601
      | Spliced \<Rightarrow> if list_ex names_aggregate templates then Some Grouping_error_42803 else None)"

text \<open>
  An accepted statement holds no cursor condition: its rows are the grouped rows in the
  order of \<open>ORDER BY\<close>, up to \<open>LIMIT take + 1\<close>. The category and the search conditions
  are among the \<open>static_filters\<close>.
\<close>

definition offers_query ::
  "interpolation \<Rightarrow> js_runtime \<Rightarrow> database \<Rightarrow> string \<Rightarrow> timestamp \<Rightarrow> int option \<Rightarrow> int option \<Rightarrow>
   string option \<Rightarrow> string option \<Rightarrow> cursor option \<Rightarrow> int \<Rightarrow> sqlstate + (string \<times> int) list" where
  "offers_query client rt db userId now minBps maxBps category search c limit =
     (case prepare client (nested_templates category search c) of
        Some e \<Rightarrow> Inl e
      | None \<Rightarrow>
          Inr (take (nat limit)
                 (sort_key order_key
                    (eligible_rows rt db userId now minBps maxBps category search))))"

subsection \<open>offersResolver\<close>

record CashbackPercentageFilters =
  minBps :: "int nullable"
  maxBps :: "int nullable"

record OffersInput =
  in_search :: "string nullable"
  in_category :: "string nullable"
  in_percentage :: "CashbackPercentageFilters nullable"
  in_take :: "int nullable"
  in_cursor :: "string nullable"

record OffersResult =
  nodes :: "(Outlet \<times> int) list"
  nextCursor :: "string nullable"
  hasNextPage :: bool

text \<open>\<open>x ?? null\<close>, read as an SQL parameter: null and undefined are NULL.\<close>

fun or_null :: "'a nullable \<Rightarrow> 'a option" where
  "or_null (Val v) = Some v"
| "or_null _ = None"

text \<open>\<open>args.input ?? {}\<close>: every field of the empty object is undefined.\<close>

definition no_input :: OffersInput where
  "no_input = \<lparr>in_search = Undefined, in_category = Undefined, in_percentage = Undefined,
               in_take = Undefined, in_cursor = Undefined\<rparr>"

text \<open>
  The nodes of a page: the outlets are fetched by id (\<open>findMany\<close>), put back in the order
  of the page's rows through a map by id, and each is given the sort key of its row.
\<close>

definition outlet_nodes :: "database \<Rightarrow> (string \<times> int) list \<Rightarrow> (Outlet \<times> int) list" where
  "outlet_nodes db pageRows =
     (let outletIds = map fst pageRows;
          outlets = (if outletIds \<noteq> [] then filter (\<lambda>out. List.member outletIds (o_id out)) (db_outlet db)
                     else []);
          byId = map_of (rev (map (\<lambda>out. (o_id out, out)) outlets));
          ordered = List.map_filter byId outletIds
      in map (\<lambda>out. (out, case find (\<lambda>r. fst r = o_id out) pageRows of
                                Some r \<Rightarrow> snd r | None \<Rightarrow> 0)) ordered)"

text \<open>
  The resolver with no Redis configured (\<open>ctx.redis\<close> undefined), so that every call
  sends the statement. \<open>userId\<close> is \<open>ctx.auth.userId\<close>, \<open>now\<close> is \<open>new Date()\<close>, and
  \<open>client\<close> says which client \<open>ctx.prisma\<close> is. A rejected statement makes the
  \<open>await\<close> throw, and the resolver with it.
\<close>

definition offersResolver ::
  "interpolation \<Rightarrow> js_runtime \<Rightarrow> database \<Rightarrow> string \<Rightarrow> timestamp \<Rightarrow> OffersInput nullable \<Rightarrow>
   sqlstate + OffersResult" where
  "offersResolver client rt db userId now args_input =
     (let input = nullish args_input no_input;
          take_n = normalizeTake (in_take input);
          c = decodeCursor rt (in_cursor input);
          search = map_option (trim_text rt) (or_null (in_search input));
          category = map_option (trim_text rt) (or_null (in_category input));
          minB = (case in_percentage input of Val pf \<Rightarrow> or_null (minBps pf) | _ \<Rightarrow> None);
          maxB = (case in_percentage input of Val pf \<Rightarrow> or_null (maxBps pf) | _ \<Rightarrow> None)
      in case offers_query client rt db userId now minB maxB category search c (take_n + 1) of
           Inl e \<Rightarrow> Inl e
         | Inr rows \<Rightarrow>
             (let pageRows = take (nat take_n) rows;
                  hasNext = (int (length rows) > take_n);
                  withHints = outlet_nodes db pageRows;
                  next = (if hasNext \<and> pageRows \<noteq> []
                          then Val (encodeCursor (snd (last pageRows)) (fst (last pageRows)))
                          else Null)
              in Inr \<lparr>nodes = withHints, nextCursor = next, hasNextPage = hasNext\<rparr>))"

text \<open>
  The eligible outlets of a request, each with its sort key: the grouped rows of the
  resolver's query before the order and the limit are applied.
\<close>

definition eligible_for ::
  "js_runtime \<Rightarrow> database \<Rightarrow> string \<Rightarrow> timestamp \<Rightarrow> OffersInput \<Rightarrow> (string \<times> int) list" where
  "eligible_for rt db userId now input =
     eligible_rows rt db userId now
       (case in_percentage input of Val pf \<Rightarrow> or_null (minBps pf) | _ \<Rightarrow> None)
       (case in_percentage input of Val pf \<Rightarrow> or_null (maxBps pf) | _ \<Rightarrow> None)
       (map_option (trim_text rt) (or_null (in_category input)))
       (map_option (trim_text rt) (or_null (in_search input)))"

subsection \<open>The offer loaders' query\<close>

record OfferIndexRow =
  row_outletId :: string
  row_offerIndexId :: string
  row_cashbackConfigurationId :: "string option"
  row_exclusiveOfferId :: "string option"
  row_loyaltyProgramId :: "string option"

definition loader_where ::
  "database \<Rightarrow> string list \<Rightarrow> OfferKind \<Rightarrow> timestamp \<Rightarrow> OfferIndex \<Rightarrow> OfferIndexOutlet \<Rightarrow>
   UserMerchantProfile option \<Rightarrow> bool" where
  "loader_where db outletIds kind now oi oio p =
     (oi_kind oi = kind \<and> List.member outletIds (oio_outletId oio) \<and> snapshot_gate oi \<and>
      is_true (date_window now oi) \<and>
      ((kind \<noteq> LOYALTY \<and> customer_type_rule db oi p) \<or> (kind = LOYALTY \<and> tier_rule db oi p)))"

text \<open>
  The rows of the loaders' statement, with the outlet ids as the \<open>IN\<close> list. The source
  builds that list with \<open>prisma.join(outletIds)\<close>; the definition is what the statement
  returns on a client that has this member and splices the list in (the generated client
  declares \<open>join\<close> on the \<open>Prisma\<close> namespace, not on the client object, where the call
  throws a TypeError before any statement is sent).
\<close>

definition eligibleOfferIndexRowsForOutlets ::
  "database \<Rightarrow> string \<Rightarrow> string list \<Rightarrow> OfferKind \<Rightarrow> timestamp \<Rightarrow> OfferIndexRow list" where
  "eligibleOfferIndexRowsForOutlets db userId outletIds kind now =
     [\<lparr>row_outletId = oio_outletId oio, row_offerIndexId = oi_id oi,
       row_cashbackConfigurationId = oi_cashbackConfigurationId oi,
       row_exclusiveOfferId = oi_exclusiveOfferId oi,
       row_loyaltyProgramId = oi_loyaltyProgramId oi\<rparr>.
        oi \<leftarrow> db_offerIndex db,
        oio \<leftarrow> db_offerIndexOutlet db, oio_offerIndexId oio = oi_id oi,
        p \<leftarrow> left_join_profile (profile db userId) oi,
        loader_where db outletIds kind now oi oio p]"

text \<open>
  A client that pages through the results: it calls the resolver with no cursor, then
  with each cursor it is handed, until \<open>hasNextPage\<close> is false, and concatenates the
  outlet ids of the pages; a call that throws ends the loop with the error. The loop
  need not end, so it runs on fuel: \<open>None\<close> is a loop that has not ended within the fuel.
\<close>

fun fetch_all ::
  "nat \<Rightarrow> interpolation \<Rightarrow> js_runtime \<Rightarrow> database \<Rightarrow> string \<Rightarrow> timestamp \<Rightarrow> OffersInput \<Rightarrow>
   string nullable \<Rightarrow> (sqlstate + string list) option" where
  "fetch_all 0 client rt db userId now input cur = None"
| "fetch_all (Suc n) client rt db userId now input cur =
     (case offersResolver client rt db userId now (Val (input\<lparr>in_cursor := cur\<rparr>)) of
        Inl e \<Rightarrow> Some (Inl e)
      | Inr page \<Rightarrow>
          (let ids = map (\<lambda>node. o_id (fst node)) (nodes page)
           in if hasNextPage page
              then (case fetch_all n client rt db userId now input (nextCursor page) of
                      None \<Rightarrow> None
                    | Some (Inl e) \<Rightarrow> Some (Inl e)
                    | Some (Inr rest) \<Rightarrow> Some (Inr (ids @ rest)))
              else Some (Inr ids)))"

section \<open>What a recompute leaves in the index\<close>







section \<open>Example data\<close>

text \<open>
  A runtime and a small store in the shape of the seed data: one active merchant with two
  approved outlets, each with an approved payment point, and one approved cashback offer
  of 10 percent for everyone, mapped to both outlets. The two outlet ids are parameters.
\<close>

definition example_runtime :: js_runtime where
  "example_runtime =
     \<lparr>number_of_text = (\<lambda>s. NaN), utf8_lossy = (\<lambda>s. s), trim_text = (\<lambda>s. s),
      ilike = (\<lambda>t p. False)\<rparr>"

definition approved :: "Review option" where
  "approved = Some \<lparr>review_status = ''Approved''\<rparr>"

definition example_offer :: OfferIndex where
  "example_offer =
     \<lparr>oi_id = ''oi1'', oi_kind = CASHBACK, oi_merchantId = ''m_food_1'',
      oi_cashbackConfigurationId = Some ''cb_all_10'', oi_exclusiveOfferId = None,
      oi_loyaltyProgramId = None, oi_isActiveSnapshot = True, oi_isApprovedSnapshot = True,
      oi_deletedAtSnapshot = None, oi_budgetExhausted = False, oi_startDate = None,
      oi_endDate = None, oi_maxCashbackPercentBps = Some 1000, oi_computedAt = 0\<rparr>"

definition example_db :: "string \<Rightarrow> string \<Rightarrow> database" where
  "example_db id1 id2 =
     \<lparr>db_offerIndex = [example_offer],
      db_offerIndexCustomerType =
        [\<lparr>ect_id = ''e1'', ect_offerIndexId = ''oi1'', ect_customerType = ''All''\<rparr>],
      db_offerIndexOutlet =
        [\<lparr>oio_id = ''x1'', oio_offerIndexId = ''oi1'', oio_outletId = id1\<rparr>,
         \<lparr>oio_id = ''x2'', oio_offerIndexId = ''oi1'', oio_outletId = id2\<rparr>],
      db_loyaltyTierIndex = [],
      db_userMerchantProfile = [],
      db_cashbackConfiguration =
        [\<lparr>cc_id = ''cb_all_10'', cc_merchantId = ''m_food_1'', cc_isActive = True,
          cc_deletedAt = None, cc_startDate = None, cc_endDate = None,
          cc_eligibleCustomerTypes = [''All''],
          cc_netCashbackBudget = JDecimal ''1000'', cc_usedCashbackBudget = JDecimal ''100'',
          cc_Review = approved, cc_Outlets = [id1, id2],
          cc_CashbackConfigurationTiers =
            [\<lparr>cct_isActive = True, cct_deletedAt = None, cct_Review = approved,
              cct_percentage = 1000\<rparr>]\<rparr>],
      db_exclusiveOffer = [],
      db_merchant =
        [\<lparr>m_id = ''m_food_1'', m_businessName = ''Tasty Bites'', m_status = ''Active'',
          m_category = ''Food'', m_LoyaltyProgram = None\<rparr>],
      db_outlet =
        [\<lparr>o_id = id1, o_name = ''Tasty Bites - CBD'', o_description = None, o_isActive = True,
          o_merchantId = ''m_food_1'', o_Review = approved\<rparr>,
         \<lparr>o_id = id2, o_name = ''Tasty Bites - Karen'', o_description = None, o_isActive = True,
          o_merchantId = ''m_food_1'', o_Review = approved\<rparr>],
      db_paybillOrTill =
        [\<lparr>pt_outletId = id1, pt_isActive = True, pt_deletedAt = None, pt_Review = approved\<rparr>,
         \<lparr>pt_outletId = id2, pt_isActive = True, pt_deletedAt = None, pt_Review = approved\<rparr>],
      db_customerType = [],
      db_nextId = 0\<rparr>"

definition example_input :: OffersInput where
  "example_input =
     \<lparr>in_search = Null, in_category = Null, in_percentage = Null, in_take = Val 1,
      in_cursor = Null\<rparr>"

definition stale_profile :: UserMerchantProfile where
  "stale_profile =
     \<lparr>ump_id = ''p1'', ump_userId = ''ghost'', ump_merchantId = ''m_food_1'',
      ump_customerType = ''Vip'', ump_rank = 5, ump_computedAt = 0\<rparr>"





section \<open>Properties\<close>

subsection \<open>Customer types and page size\<close>


lemma customerTypeRank_missing:
  "customerTypeRank Null = Num 0" "customerTypeRank Undefined = Num 0"
  "customerTypeRank (Val []) = Num 0"
  by (simp_all add: customerTypeRank_def)

lemma customerTypeRank_unknown:
  "map_of ORDERED_CUSTOMER_TYPES s = None \<Longrightarrow> \<not> List.member Object_prototype_keys s \<Longrightarrow>
   customerTypeRank (Val s) = Num 0"
  by (simp add: customerTypeRank_def get_member_def)

lemma isTierEligible_iff: "isTierEligible userRank tierMinRank \<longleftrightarrow> userRank \<ge> tierMinRank"
  by (simp add: isTierEligible_def)

text \<open>
  C8. The claim: \<open>isTierEligible\<close> is \<open>userRank >= tierMinRank\<close>, the known types rank 0
  to 5, and every unknown, null or missing type ranks 0. The first two parts hold
  (\<open>isTierEligible_iff\<close>, \<open>customerTypeRank_known\<close>, \<open>customerTypeRank_missing\<close>), and so
  does the third for every string that names no member of \<open>Object.prototype\<close>
  (\<open>customerTypeRank_unknown\<close>). The code breaks it for the others: the type
  \<open>"constructor"\<close> is not a key of the table, and its rank is not 0 and not a number, but
  the inherited member the property read finds.
\<close>

theorem customerTypeRank_constructor:
  "map_of ORDERED_CUSTOMER_TYPES ''constructor'' = None \<and>
   customerTypeRank (Val ''constructor'') = Inherited ''constructor'' \<and>
   customerTypeRank (Val ''constructor'') \<noteq> Num 0"
  by (simp add: customerTypeRank_def get_member_def ORDERED_CUSTOMER_TYPES_def
      Object_prototype_keys_def)

text \<open>
  C9. For every \<open>take\<close> (an integer, null or undefined) the page size is in [1, 50]:
  null and undefined give 20, a value above 50 gives 50, a value below 1 gives 1, and a
  value in the range is kept.
\<close>

theorem normalizeTake_range:
  "1 \<le> normalizeTake t \<and> normalizeTake t \<le> 50 \<and>
   (t = Null \<or> t = Undefined \<longrightarrow> normalizeTake t = 20) \<and>
   (\<forall>n. t = Val n \<and> 50 < n \<longrightarrow> normalizeTake t = 50) \<and>
   (\<forall>n. t = Val n \<and> n < 1 \<longrightarrow> normalizeTake t = 1) \<and>
   (\<forall>n. t = Val n \<and> 1 \<le> n \<and> n \<le> 50 \<longrightarrow> normalizeTake t = n)"
  by (cases t) (auto simp: normalizeTake_def Let_def)

theorem normalizeTake_range_witness:
  "normalizeTake Null = 20 \<and> normalizeTake Undefined = 20 \<and> normalizeTake (Val 51) = 50 \<and>
   normalizeTake (Val 0) = 1 \<and> normalizeTake (Val (- 7)) = 1 \<and> normalizeTake (Val 33) = 33"
  using normalizeTake_range [of Null] normalizeTake_range [of Undefined]
    normalizeTake_range [of "Val 51"] normalizeTake_range [of "Val 0"]
    normalizeTake_range [of "Val (- 7)"] normalizeTake_range [of "Val 33"]
  by simp

subsection \<open>Budget exhaustion\<close>

lemma js_eq_not_lt: "js_eq u n \<Longrightarrow> \<not> js_lt u n"
  by (cases u; cases n) simp_all

text \<open>
  C1, as amended. For the cashback and the exclusive computation (they are the same
  function), on the numbers the two fields convert to: used equal to net is exhausted;
  used below net is not exhausted; a net of 0 is exhausted for every used that is not
  negative; and a field that converts to NaN, or whose conversion throws, is exhausted.
\<close>

theorem cashbackBudgetExhausted_boundary:
  "(ToNumber rt net = Inr n \<and> ToNumber rt used = Inr u \<and> js_eq u n
      \<longrightarrow> cashbackBudgetExhausted rt net used) \<and>
   (ToNumber rt net = Inr n \<and> ToNumber rt used = Inr u \<and> js_lt u n
      \<longrightarrow> \<not> cashbackBudgetExhausted rt net used) \<and>
   (ToNumber rt net = Inr (Fin 0) \<and> ToNumber rt used = Inr (Fin q) \<and> 0 \<le> q
      \<longrightarrow> cashbackBudgetExhausted rt net used) \<and>
   (ToNumber rt net = Inr NaN \<or> ToNumber rt used = Inr NaN \<or>
    ToNumber rt net = Inl e \<or> ToNumber rt used = Inl e
      \<longrightarrow> cashbackBudgetExhausted rt net used) \<and>
   offerBudgetExhausted rt net used = cashbackBudgetExhausted rt net used"
proof (intro conjI impI)
  assume "ToNumber rt net = Inr n \<and> ToNumber rt used = Inr u \<and> js_eq u n"
  then show "cashbackBudgetExhausted rt net used"
    by (simp add: cashbackBudgetExhausted_def js_eq_not_lt)
next
  assume "ToNumber rt net = Inr n \<and> ToNumber rt used = Inr u \<and> js_lt u n"
  then show "\<not> cashbackBudgetExhausted rt net used"
    by (simp add: cashbackBudgetExhausted_def)
next
  assume "ToNumber rt net = Inr (Fin 0) \<and> ToNumber rt used = Inr (Fin q) \<and> 0 \<le> q"
  then show "cashbackBudgetExhausted rt net used"
    by (simp add: cashbackBudgetExhausted_def)
next
  assume "ToNumber rt net = Inr NaN \<or> ToNumber rt used = Inr NaN \<or>
    ToNumber rt net = Inl e \<or> ToNumber rt used = Inl e"
  then show "cashbackBudgetExhausted rt net used"
    by (auto simp: cashbackBudgetExhausted_def split: sum.splits)
next
  show "offerBudgetExhausted rt net used = cashbackBudgetExhausted rt net used"
    by (simp add: offerBudgetExhausted_def cashbackBudgetExhausted_def)
qed

theorem cashbackBudgetExhausted_boundary_witness:
  "cashbackBudgetExhausted example_runtime (JNumber (Fin 100)) (JNumber (Fin 100)) \<and>
   \<not> cashbackBudgetExhausted example_runtime (JNumber (Fin 100)) (JNumber (Fin 99)) \<and>
   cashbackBudgetExhausted example_runtime (JDecimal ''0'') (JNumber (Fin 7)) \<and>
   cashbackBudgetExhausted example_runtime (JString ''abc'') (JNumber (Fin 7)) \<and>
   cashbackBudgetExhausted example_runtime (JNumber (Fin 7)) JSymbol"
proof -
  have z: "ToNumber example_runtime (JDecimal ''0'') = Inr (Fin 0)"
    by (simp add: StringToNumber_def parse_integer_def is_digit_def digits_val_def
        MAX_SAFE_INTEGER_def)
  have a: "ToNumber example_runtime (JString ''abc'') = Inr NaN"
    by (simp add: StringToNumber_def parse_integer_def is_digit_def example_runtime_def)
  show ?thesis
    using cashbackBudgetExhausted_boundary
            [of example_runtime "JNumber (Fin 100)" "Fin 100" "JNumber (Fin 100)" "Fin 100" 0 TypeError]
          cashbackBudgetExhausted_boundary
            [of example_runtime "JNumber (Fin 100)" "Fin 100" "JNumber (Fin 99)" "Fin 99" 0 TypeError]
          cashbackBudgetExhausted_boundary
            [of example_runtime "JDecimal ''0''" "Fin 0" "JNumber (Fin 7)" "Fin 7" 7 TypeError]
          cashbackBudgetExhausted_boundary
            [of example_runtime "JString ''abc''" NaN "JNumber (Fin 7)" "Fin 7" 7 TypeError]
          cashbackBudgetExhausted_boundary
            [of example_runtime "JNumber (Fin 7)" "Fin 7" JSymbol NaN 0 TypeError]
          z a
    by simp
qed

text \<open>
  The claim as stated fails: with a net budget of 0 and a used budget of -1 the offer is
  not exhausted (\<open>-1 < 0\<close> holds).
\<close>

theorem cashbackBudgetExhausted_zero_net_counterexample:
  "ToNumber example_runtime (JNumber (Fin 0)) = Inr (Fin 0) \<and>
   \<not> cashbackBudgetExhausted example_runtime (JNumber (Fin 0)) (JNumber (Fin (- 1)))"
  by (simp add: cashbackBudgetExhausted_def)

subsection \<open>Base64 and decimal text\<close>

lemma b64_arith_bounds:
  fixes x y z :: nat
  assumes "x < 256" "y < 256" "z < 256"
  shows "x div 4 < 64" "(x mod 4) * 16 + y div 16 < 64" "(y mod 16) * 4 + z div 64 < 64"
    "z mod 64 < 64" "(x mod 4) * 16 < 64" "(y mod 16) * 4 < 64"
proof -
  have p: "x mod 4 < 4" "y mod 16 < 16" by simp_all
  have q: "y div 16 < 16" "z div 64 < 4" "x div 4 < 64"
    using assms by (simp_all add: less_mult_imp_div_less)
  show "x div 4 < 64" by (rule q)
  show "(x mod 4) * 16 + y div 16 < 64" using p q by linarith
  show "(y mod 16) * 4 + z div 64 < 64" using p q by linarith
  show "z mod 64 < 64" by simp
  show "(x mod 4) * 16 < 64" using p by linarith
  show "(y mod 16) * 4 < 64" using p by linarith
qed

lemma b64_arith_join:
  fixes x y z :: nat
  assumes "x < 256" "y < 256" "z < 256"
  shows
    "(x div 4) * 4 + ((x mod 4) * 16 + y div 16) div 16 = x"
    "(((x mod 4) * 16 + y div 16) mod 16) * 16 + ((y mod 16) * 4 + z div 64) div 4 = y"
    "(((y mod 16) * 4 + z div 64) mod 4) * 64 + z mod 64 = z"
    "(x div 4) * 4 + ((x mod 4) * 16) div 16 = x"
    "(((x mod 4) * 16 + y div 16) mod 16) * 16 + ((y mod 16) * 4) div 4 = y"
proof -
  have q: "y div 16 < 16" "z div 64 < 4"
    using assms by (simp_all add: less_mult_imp_div_less)
  have a: "((x mod 4) * 16 + y div 16) div 16 = x mod 4" using q by simp
  have b: "((x mod 4) * 16 + y div 16) mod 16 = y div 16" using q by simp
  have c: "((y mod 16) * 4 + z div 64) div 4 = y mod 16" using q by simp
  have d: "((y mod 16) * 4 + z div 64) mod 4 = z div 64" using q by simp
  show "(x div 4) * 4 + ((x mod 4) * 16 + y div 16) div 16 = x" by (simp add: a)
  show "(((x mod 4) * 16 + y div 16) mod 16) * 16 + ((y mod 16) * 4 + z div 64) div 4 = y"
    using q by (simp add: b c)
  show "(((y mod 16) * 4 + z div 64) mod 4) * 64 + z mod 64 = z" using q by (simp add: d)
  show "(x div 4) * 4 + ((x mod 4) * 16) div 16 = x" by simp
  show "(((x mod 4) * 16 + y div 16) mod 16) * 16 + ((y mod 16) * 4) div 4 = y"
    using q by (simp add: b)
qed

lemma of_char_lt_256: "(of_char c :: nat) < 256"
  using of_char_mod_256 [of c, where ?'a = nat]
  by (metis mod_less_divisor zero_less_numeral)

lemma unbase64_b64_char: "i < 64 \<Longrightarrow> unbase64 (b64_char i) = Some i"
proof -
  assume i: "i < 64"
  consider "i < 26" | "26 \<le> i \<and> i < 52" | "52 \<le> i \<and> i < 62" | "i = 62" | "i = 63"
    using i by linarith
  then show ?thesis
  proof cases
    case 1
    then show ?thesis by (simp add: unbase64_def b64_char_def Let_def)
  next
    case 2
    then show ?thesis by (simp add: unbase64_def b64_char_def Let_def)
  next
    case 3
    then show ?thesis by (auto simp add: unbase64_def b64_char_def Let_def)
  next
    case 4
    then show ?thesis by (simp add: unbase64_def b64_char_def Let_def)
  next
    case 5
    then show ?thesis by (simp add: unbase64_def b64_char_def Let_def)
  qed
qed

lemma b64_char_not_pad: "i < 64 \<Longrightarrow> b64_char i \<noteq> CHR ''=''"
proof
  assume i: "i < 64" and e: "b64_char i = CHR ''=''"
  from unbase64_b64_char [OF i] e have "unbase64 CHR ''='' = Some i" by simp
  then show False by (simp add: unbase64_def Let_def)
qed


lemma dec_chars_b64: "i < 64 \<Longrightarrow> dec_chars (b64_char i # cs) = i # dec_chars cs"
  by (simp add: dec_chars_def b64_char_not_pad unbase64_b64_char map_filter_simps)

lemma dec_chars_pad: "dec_chars (CHR ''='' # cs) = []"
  by (simp add: dec_chars_def map_filter_simps)

lemma dec_chars_nil: "dec_chars [] = []"
  by (simp add: dec_chars_def map_filter_simps)

lemma base64_roundtrip: "sextets_to_bytes (dec_chars (base64_encode bs)) = bs"
proof (induction bs rule: base64_encode.induct)
  case 1
  show ?case by (simp add: dec_chars_nil)
next
  case (2 a)
  have x: "(of_char a :: nat) < 256" by (rule of_char_lt_256)
  show ?case
    using b64_arith_bounds [OF x x x] b64_arith_join [OF x x x]
    by (simp add: Let_def dec_chars_b64 dec_chars_pad)
next
  case (3 a b)
  have x: "(of_char a :: nat) < 256" and y: "(of_char b :: nat) < 256" by (rule of_char_lt_256)+
  show ?case
    using b64_arith_bounds [OF x y y] b64_arith_join [OF x y y]
    by (simp add: Let_def dec_chars_b64 dec_chars_pad)
next
  case (4 a b c rest)
  have x: "(of_char a :: nat) < 256" and y: "(of_char b :: nat) < 256"
    and z: "(of_char c :: nat) < 256" by (rule of_char_lt_256)+
  show ?case
    using b64_arith_bounds [OF x y z] b64_arith_join [OF x y z] 4
    by (simp add: Let_def dec_chars_b64)
qed

lemma base64_decode_encode: "base64_decode (base64_encode bs) = bs"
  using base64_roundtrip [of bs] by (simp add: dec_chars_def base64_decode_def)

lemma of_char_digit_char: "d < 10 \<Longrightarrow> (of_char (digit_char d) :: nat) = 48 + d"
  by (simp add: digit_char_def)

lemma is_digit_digit_char: "d < 10 \<Longrightarrow> is_digit (digit_char d)"
  by (simp add: is_digit_def of_char_digit_char)

lemma digits_not_Nil: "digits n \<noteq> []"
  by (subst digits.simps) simp

lemma list_all_is_digit_digits: "list_all is_digit (digits n)"
proof (induction n rule: digits.induct)
  case (1 n)
  show ?case
  proof (cases "n < 10")
    case True
    then show ?thesis by (subst digits.simps) (simp add: is_digit_digit_char)
  next
    case False
    with 1 show ?thesis by (subst digits.simps) (simp add: is_digit_digit_char)
  qed
qed

lemma digits_val_snoc: "digits_val (ds @ [c]) = digits_val ds * 10 + ((of_char c :: nat) - 48)"
  by (simp add: digits_val_def)

lemma digits_val_digits: "digits_val (digits n) = n"
proof (induction n rule: digits.induct)
  case (1 n)
  show ?case
  proof (cases "n < 10")
    case True
    then show ?thesis
      by (subst digits.simps) (simp add: digits_val_def of_char_digit_char)
  next
    case False
    with 1 have "digits_val (digits (n div 10)) = n div 10" by simp
    with False show ?thesis
      by (subst digits.simps) (simp add: digits_val_snoc of_char_digit_char)
  qed
qed

lemma is_digit_not_minus: "is_digit c \<Longrightarrow> c \<noteq> CHR ''-''"
  by (auto simp: is_digit_def)

lemma is_digit_not_colon: "is_digit c \<Longrightarrow> c \<noteq> CHR '':''"
  by (auto simp: is_digit_def)

lemma is_digit_ascii: "is_digit c \<Longrightarrow> (of_char c :: nat) < 128"
  by (simp add: is_digit_def)

lemma parse_integer_digits: "parse_integer (digits n) = Some (int n)"
proof -
  obtain c cs where e: "digits n = c # cs"
    using digits_not_Nil [of n] by (cases "digits n") auto
  have a: "list_all is_digit (c # cs)"
    using list_all_is_digit_digits [of n] e by simp
  then have "c \<noteq> CHR ''-''" by (simp add: is_digit_not_minus)
  with a e digits_val_digits [of n] show ?thesis
    by (simp add: parse_integer_def)
qed

lemma parse_integer_int_to_string: "parse_integer (int_to_string k) = Some k"
proof (cases "k < 0")
  case True
  then show ?thesis
    by (simp add: int_to_string_def parse_integer_def digits_not_Nil
        list_all_is_digit_digits digits_val_digits)
next
  case False
  then show ?thesis
    by (simp add: int_to_string_def parse_integer_digits)
qed

lemma int_to_string_not_Nil: "int_to_string k \<noteq> []"
  by (simp add: int_to_string_def digits_not_Nil)

lemma StringToNumber_int_to_string:
  "\<bar>k\<bar> \<le> MAX_SAFE_INTEGER \<Longrightarrow> StringToNumber rt (int_to_string k) = Fin (of_int k)"
  by (simp add: StringToNumber_def int_to_string_not_Nil parse_integer_int_to_string)

lemma digits_chars: "c \<in> set (digits n) \<Longrightarrow> c \<noteq> CHR '':'' \<and> (of_char c :: nat) < 128"
proof -
  assume "c \<in> set (digits n)"
  with list_all_is_digit_digits [of n] have "is_digit c" by (simp add: list_all_iff)
  then show ?thesis by (simp add: is_digit_not_colon is_digit_ascii)
qed

lemma int_to_string_chars:
  "c \<in> set (int_to_string k) \<Longrightarrow> c \<noteq> CHR '':'' \<and> (of_char c :: nat) < 128"
  using digits_chars [of c "nat k"] digits_chars [of c "nat (- k)"]
  by (auto simp: int_to_string_def split: if_splits)

lemma split_no_sep: "sep \<notin> set s \<Longrightarrow> split sep s = [s]"
  by (induction s) auto

lemma split_first: "sep \<notin> set p \<Longrightarrow> split sep (p @ sep # s) = p # split sep s"
  by (induction p) auto

lemma utf8_wf_ascii_prefix:
  "\<forall>c \<in> set p. (of_char c :: nat) < 128 \<Longrightarrow>
   utf8_wf (map of_char (p @ s)) = utf8_wf (map of_char s)"
  by (induction p) auto

lemma well_formed_cursor_text:
  "well_formed oid \<Longrightarrow> well_formed (int_to_string k @ CHR '':'' # oid)"
proof -
  assume w: "well_formed oid"
  have "\<forall>c \<in> set (int_to_string k @ [CHR '':'']). (of_char c :: nat) < 128"
    using int_to_string_chars [of _ k] by auto
  from utf8_wf_ascii_prefix [OF this, of oid] w show ?thesis
    by (simp add: well_formed_def)
qed

subsection \<open>Cursors\<close>

lemma base64_encode_not_Nil: "bs \<noteq> [] \<Longrightarrow> base64_encode bs \<noteq> []"
  by (induction bs rule: base64_encode.induct) (simp_all add: Let_def)

lemma decodeCursor_text:
  "well_formed (p @ CHR '':'' # oid) \<Longrightarrow> CHR '':'' \<notin> set p \<Longrightarrow>
   decodeCursor rt (Val (base64_encode (p @ CHR '':'' # oid))) =
     (case split CHR '':'' oid of
        [] \<Rightarrow> None
      | q # qs \<Rightarrow>
          if \<not> isFinite (StringToNumber rt p) \<or> q = [] then None
          else Some \<lparr>sortKey = StringToNumber rt p, outletId = q\<rparr>)"
  by (simp add: decodeCursor_def base64_encode_not_Nil base64_decode_encode toString_utf8_def
      split_first Let_def split: list.splits)

lemma decodeCursor_encodeCursor_valid:
  assumes "\<bar>k\<bar> \<le> MAX_SAFE_INTEGER" "oid \<noteq> []" "CHR '':'' \<notin> set oid" "well_formed oid"
  shows "decodeCursor rt (Val (encodeCursor k oid)) = Some \<lparr>sortKey = Fin (of_int k), outletId = oid\<rparr>"
proof -
  have c: "CHR '':'' \<notin> set (int_to_string k)"
    using int_to_string_chars [of "CHR '':''" k] by blast
  from assms have w: "well_formed (int_to_string k @ CHR '':'' # oid)"
    by (simp add: well_formed_cursor_text)
  from assms show ?thesis
    unfolding encodeCursor_def decodeCursor_text [OF w c]
    by (simp add: split_no_sep StringToNumber_int_to_string)
qed

lemma decodeCursor_shape:
  "decodeCursor rt c = None \<or>
   (\<exists>q oid. decodeCursor rt c = Some \<lparr>sortKey = Fin q, outletId = oid\<rparr> \<and> oid \<noteq> [])"
proof (cases "decodeCursor rt c")
  case None
  then show ?thesis by simp
next
  case (Some r)
  then obtain q where "sortKey r = Fin q" and "outletId r \<noteq> []"
    by (cases "StringToNumber rt (hd (split CHR '':'' (toString_utf8 rt (base64_decode
          (case c of Val t \<Rightarrow> t | _ \<Rightarrow> [])))))")
       (auto simp: decodeCursor_def Let_def split: nullable.splits if_splits list.splits)
  with Some show ?thesis by (cases r) auto
qed

text \<open>
  C3, as amended. For every integer sort key in the safe range (where the decimal text
  is exact) and every outlet id that is a well-formed text, not empty, and holds no colon,
  \<open>decodeCursor(encodeCursor(sortKey, outletId))\<close> is \<open>{sortKey, outletId}\<close>; for the empty
  outlet id it is null; and for every input whatsoever \<open>decodeCursor\<close> returns null or a
  pair of a finite number and a non-empty outlet id: the function is total, it has no
  error to throw. Null, undefined and the empty string give null.
\<close>

theorem decodeCursor_encodeCursor:
  "(\<bar>k\<bar> \<le> MAX_SAFE_INTEGER \<and> oid \<noteq> [] \<and> CHR '':'' \<notin> set oid \<and> well_formed oid \<longrightarrow>
      decodeCursor rt (Val (encodeCursor k oid)) = Some \<lparr>sortKey = Fin (of_int k), outletId = oid\<rparr>) \<and>
   decodeCursor rt (Val (encodeCursor k [])) = None \<and>
   (decodeCursor rt c = None \<or>
    (\<exists>q oid'. decodeCursor rt c = Some \<lparr>sortKey = Fin q, outletId = oid'\<rparr> \<and> oid' \<noteq> [])) \<and>
   decodeCursor rt Null = None \<and> decodeCursor rt Undefined = None \<and> decodeCursor rt (Val []) = None"
proof (intro conjI impI)
  assume "\<bar>k\<bar> \<le> MAX_SAFE_INTEGER \<and> oid \<noteq> [] \<and> CHR '':'' \<notin> set oid \<and> well_formed oid"
  then show "decodeCursor rt (Val (encodeCursor k oid)) =
      Some \<lparr>sortKey = Fin (of_int k), outletId = oid\<rparr>"
    by (simp add: decodeCursor_encodeCursor_valid)
next
  have c: "CHR '':'' \<notin> set (int_to_string k)"
    using int_to_string_chars [of "CHR '':''" k] by blast
  have w: "well_formed (int_to_string k @ CHR '':'' # [])"
    by (rule well_formed_cursor_text) (simp add: well_formed_def)
  show "decodeCursor rt (Val (encodeCursor k [])) = None"
    unfolding encodeCursor_def decodeCursor_text [OF w c] by simp
next
  show "decodeCursor rt c = None \<or>
    (\<exists>q oid'. decodeCursor rt c = Some \<lparr>sortKey = Fin q, outletId = oid'\<rparr> \<and> oid' \<noteq> [])"
    by (rule decodeCursor_shape)
qed (simp_all add: decodeCursor_def)

theorem decodeCursor_encodeCursor_witness:
  "decodeCursor example_runtime (Val (encodeCursor 1000 ''o_food_1'')) =
     Some \<lparr>sortKey = Fin 1000, outletId = ''o_food_1''\<rparr> \<and>
   decodeCursor example_runtime (Val (encodeCursor 1000 [])) = None"
proof -
  have "well_formed ''o_food_1''" by (simp add: well_formed_def)
  with decodeCursor_encodeCursor [of 1000 "''o_food_1''" example_runtime Null]
  show ?thesis by (simp add: MAX_SAFE_INTEGER_def)
qed

text \<open>
  The claim as stated fails for an outlet id that holds a colon: the cursor of
  \<open>(5, "a:b")\<close> decodes to \<open>(5, "a")\<close>.
\<close>

theorem decodeCursor_colon_counterexample:
  "decodeCursor example_runtime (Val (encodeCursor 5 ''a:b'')) =
     Some \<lparr>sortKey = Fin 5, outletId = ''a''\<rparr> \<and>
   decodeCursor example_runtime (Val (encodeCursor 5 ''a:b'')) \<noteq>
     Some \<lparr>sortKey = Fin 5, outletId = ''a:b''\<rparr>"
  by code_simp

subsection \<open>The date window and the customer-type rule\<close>

lemma sql_and_Some: "sql_and (Some a) (Some b) = Some (a \<and> b)"
  by (cases a; cases b) simp_all

lemma sql_or_Some: "sql_or (Some a) (Some b) = Some (a \<or> b)"
  by (cases a; cases b) simp_all

lemma sql_and_None: "sql_and None b \<noteq> Some True" "sql_and a None \<noteq> Some True"
  by (cases "(None :: sql_bool, b)" rule: sql_and.cases; simp)
     (cases "(a, None :: sql_bool)" rule: sql_and.cases; simp)

lemma sql_or_False_left: "sql_or (Some False) b = Some True \<longleftrightarrow> b = Some True"
  by (cases "(Some False, b)" rule: sql_or.cases) simp_all

lemma is_true_date_window:
  "is_true (date_window now oi) \<longleftrightarrow>
     (oi_startDate oi = None \<and> oi_endDate oi = None) \<or>
     (\<exists>s e. oi_startDate oi = Some s \<and> oi_endDate oi = Some e \<and> s \<le> now \<and> now \<le> e)"
  by (cases "oi_startDate oi"; cases "oi_endDate oi")
     (auto simp: is_true_def date_window_def sql_is_null_def sql_and_Some sql_or_Some
        sql_or_False_left sql_and_None)

lemma in_set_concat_mapE:
  "r \<in> set (concat (map f xs)) \<Longrightarrow> (\<And>x. x \<in> set xs \<Longrightarrow> r \<in> set (f x) \<Longrightarrow> P) \<Longrightarrow> P"
  by auto

lemma in_set_ifE: "r \<in> set (if c then xs else []) \<Longrightarrow> (c \<Longrightarrow> r \<in> set xs \<Longrightarrow> P) \<Longrightarrow> P"
  by (cases c) simp_all

lemma loader_rows_src:
  assumes "r \<in> set (eligibleOfferIndexRowsForOutlets db u ids k now)"
  shows "\<exists>oi oio p. oi \<in> set (db_offerIndex db) \<and>
      loader_where db ids k now oi oio p \<and> row_offerIndexId r = oi_id oi"
  using assms unfolding eligibleOfferIndexRowsForOutlets_def
  apply (elim in_set_concat_mapE in_set_ifE)
  apply simp
  apply (intro exI conjI)
    apply (assumption | simp)+
  done

lemma resolver_rows_src:
  assumes "row \<in> set (eligible_cashback_or_exclusive db u now minB maxB)"
  shows "\<exists>oi oio p. oi \<in> set (db_offerIndex db) \<and> oio \<in> set (db_offerIndexOutlet db) \<and>
      oio_offerIndexId oio = oi_id oi \<and> cashback_or_exclusive_where db now minB maxB oi p \<and>
      fst row = oio_outletId oio"
  using assms unfolding eligible_cashback_or_exclusive_def set_remdups
  apply (elim in_set_concat_mapE in_set_ifE)
  apply simp
  apply (intro exI conjI)
    apply (assumption | simp)+
  done

lemma example_cashback_rows:
  "eligible_cashback_or_exclusive (example_db ''o_1'' ''o_2'') ''u'' 10 None None =
     [(''o_1'', 1000), (''o_2'', 1000)]"
  by code_simp

lemma example_loader_rows:
  "eligibleOfferIndexRowsForOutlets (example_db ''o_1'' ''o_2'') ''u'' [''o_1''] CASHBACK 10 =
     [\<lparr>row_outletId = ''o_1'', row_offerIndexId = ''oi1'',
       row_cashbackConfigurationId = Some ''cb_all_10'', row_exclusiveOfferId = None,
       row_loyaltyProgramId = None\<rparr>]"
  by code_simp

text \<open>
  C10. An index row with exactly one of \<open>startDate\<close> and \<open>endDate\<close> set passes the date
  condition at no time, so neither the resolver's cashback-or-exclusive branch nor the
  loaders' query accepts it, whatever the user and the other columns; the date condition
  holds exactly when both bounds are null or both are set with
  \<open>start \<le> now \<le> end\<close>. At the level of the queries: every row the resolver's
  cashback-or-exclusive branch returns, and every row the loaders' query returns, comes
  from an index row whose two bounds are both null or both set.
\<close>

theorem half_open_window_never_eligible:
  "((oi_startDate oi = None) \<noteq> (oi_endDate oi = None) \<longrightarrow>
      \<not> is_true (date_window now oi) \<and>
      \<not> cashback_or_exclusive_where db now minB maxB oi p \<and>
      \<not> loader_where db outletIds k now oi oio p) \<and>
   (is_true (date_window now oi) \<longleftrightarrow>
      (oi_startDate oi = None \<and> oi_endDate oi = None) \<or>
      (\<exists>s e. oi_startDate oi = Some s \<and> oi_endDate oi = Some e \<and> s \<le> now \<and> now \<le> e)) \<and>
   (row \<in> set (eligible_cashback_or_exclusive db u now minB maxB) \<longrightarrow>
      (\<exists>oi' \<in> set (db_offerIndex db). \<exists>oio' \<in> set (db_offerIndexOutlet db).
         oio_offerIndexId oio' = oi_id oi' \<and> fst row = oio_outletId oio' \<and>
         ((oi_startDate oi' = None) = (oi_endDate oi' = None)))) \<and>
   (r \<in> set (eligibleOfferIndexRowsForOutlets db u outletIds k now) \<longrightarrow>
      (\<exists>oi' \<in> set (db_offerIndex db). row_offerIndexId r = oi_id oi' \<and>
         ((oi_startDate oi' = None) = (oi_endDate oi' = None))))"
proof (intro conjI impI)
  assume "row \<in> set (eligible_cashback_or_exclusive db u now minB maxB)"
  then obtain oi' oio' p' where a: "oi' \<in> set (db_offerIndex db)"
      "oio' \<in> set (db_offerIndexOutlet db)" "oio_offerIndexId oio' = oi_id oi'"
      "cashback_or_exclusive_where db now minB maxB oi' p'" "fst row = oio_outletId oio'"
    using resolver_rows_src [of row db u now minB maxB] by blast
  from a(4) have "is_true (date_window now oi')"
    by (simp add: cashback_or_exclusive_where_def)
  then have "(oi_startDate oi' = None) = (oi_endDate oi' = None)"
    using is_true_date_window [of now oi'] by auto
  with a show "\<exists>oi' \<in> set (db_offerIndex db). \<exists>oio' \<in> set (db_offerIndexOutlet db).
         oio_offerIndexId oio' = oi_id oi' \<and> fst row = oio_outletId oio' \<and>
         ((oi_startDate oi' = None) = (oi_endDate oi' = None))"
    by (intro bexI [where x = oi'] bexI [where x = oio']) simp_all
next
  assume "r \<in> set (eligibleOfferIndexRowsForOutlets db u outletIds k now)"
  then obtain oi' oio' p' where a: "oi' \<in> set (db_offerIndex db)"
      "loader_where db outletIds k now oi' oio' p'" "row_offerIndexId r = oi_id oi'"
    using loader_rows_src [of r db u outletIds k now] by blast
  from a(2) have "is_true (date_window now oi')"
    by (simp add: loader_where_def)
  then have "(oi_startDate oi' = None) = (oi_endDate oi' = None)"
    using is_true_date_window [of now oi'] by auto
  with a show "\<exists>oi' \<in> set (db_offerIndex db). row_offerIndexId r = oi_id oi' \<and>
         ((oi_startDate oi' = None) = (oi_endDate oi' = None))"
    by (intro bexI [where x = oi']) simp_all
qed (use is_true_date_window [of now oi] in
      \<open>auto simp: cashback_or_exclusive_where_def loader_where_def\<close>)

theorem half_open_window_never_eligible_witness:
  "\<not> is_true (date_window 10 (example_offer\<lparr>oi_startDate := Some 5\<rparr>)) \<and>
   \<not> cashback_or_exclusive_where (example_db ''o_1'' ''o_2'') 10 None None
        (example_offer\<lparr>oi_startDate := Some 5\<rparr>) None \<and>
   \<not> loader_where (example_db ''o_1'' ''o_2'') [''o_1''] CASHBACK 10
        (example_offer\<lparr>oi_startDate := Some 5\<rparr>)
        \<lparr>oio_id = ''x1'', oio_offerIndexId = ''oi1'', oio_outletId = ''o_1''\<rparr> None \<and>
   \<not> is_true (date_window 10 (example_offer\<lparr>oi_endDate := Some 50\<rparr>)) \<and>
   is_true (date_window 10 (example_offer\<lparr>oi_startDate := Some 5, oi_endDate := Some 50\<rparr>)) \<and>
   is_true (date_window 10 example_offer) \<and>
   (''o_1'', 1000) \<in> set (eligible_cashback_or_exclusive (example_db ''o_1'' ''o_2'') ''u'' 10 None None) \<and>
   (\<exists>r \<in> set (eligibleOfferIndexRowsForOutlets (example_db ''o_1'' ''o_2'') ''u'' [''o_1''] CASHBACK 10).
      row_offerIndexId r = ''oi1'') \<and>
   (\<exists>oi' \<in> set (db_offerIndex (example_db ''o_1'' ''o_2'')).
      oi_id oi' = ''oi1'' \<and> (oi_startDate oi' = None) = (oi_endDate oi' = None))"
proof -
  let ?db = "example_db ''o_1'' ''o_2''"
  let ?r = "\<lparr>row_outletId = ''o_1'', row_offerIndexId = ''oi1'',
             row_cashbackConfigurationId = Some ''cb_all_10'',
             row_exclusiveOfferId = None, row_loyaltyProgramId = None\<rparr>"
  note t = half_open_window_never_eligible
             [where now = 10 and db = ?db and minB = None and maxB = None and p = None
                and outletIds = "[''o_1'']" and k = CASHBACK and u = "''u''"
                and row = "(''o_1'', 1000)" and r = ?r
                and oio = "\<lparr>oio_id = ''x1'', oio_offerIndexId = ''oi1'', oio_outletId = ''o_1''\<rparr>",
              unfolded example_cashback_rows example_loader_rows]
  have db: "db_offerIndex ?db = [example_offer]"
    by (simp add: example_db_def)
  from t [where oi = "example_offer\<lparr>oi_startDate := Some 5\<rparr>"]
       t [where oi = "example_offer\<lparr>oi_endDate := Some 50\<rparr>"]
       t [where oi = "example_offer\<lparr>oi_startDate := Some 5, oi_endDate := Some 50\<rparr>"]
       t [where oi = example_offer]
  show ?thesis
    unfolding example_cashback_rows example_loader_rows db
    by (simp add: example_offer_def)
qed

text \<open>
  C2, as amended. For every offer and every profile-or-absence of the user at the
  offer's merchant: the exact-type match and the NonCustomer default are mutually
  exclusive (the first needs a profile, the second its absence); the rule both queries
  apply is the disjunction of the All match and these two; and no case applies exactly
  when the rule fails. The All match is not exclusive of the other two.
\<close>

theorem customer_type_rule_cases:
  "\<not> (type_match db oi p \<and> noncustomer_match db oi p) \<and>
   (customer_type_rule db oi p \<longleftrightarrow> all_match db oi \<or> type_match db oi p \<or> noncustomer_match db oi p) \<and>
   (p \<noteq> None \<longrightarrow> \<not> noncustomer_match db oi p) \<and>
   (p = None \<longrightarrow> \<not> type_match db oi p) \<and>
   (cashback_or_exclusive_where db now minB maxB oi p \<longrightarrow> customer_type_rule db oi p) \<and>
   (k \<noteq> LOYALTY \<and> loader_where db outletIds k now oi oio p \<longrightarrow> customer_type_rule db oi p)"
  by (cases p)
     (auto simp: customer_type_rule_def type_match_def noncustomer_match_def
        cashback_or_exclusive_where_def loader_where_def)

theorem customer_type_rule_cases_witness:
  "customer_type_rule (example_db ''o_1'' ''o_2'') example_offer None \<and>
   all_match (example_db ''o_1'' ''o_2'') example_offer \<and>
   \<not> type_match (example_db ''o_1'' ''o_2'') example_offer None \<and>
   \<not> noncustomer_match (example_db ''o_1'' ''o_2'') example_offer None \<and>
   cashback_or_exclusive_where (example_db ''o_1'' ''o_2'') 10 None None example_offer None"
  using customer_type_rule_cases
          [of "example_db ''o_1'' ''o_2''" example_offer None 10 None None CASHBACK "[]" undefined]
  by (simp add: example_db_def example_offer_def all_match_def noncustomer_match_def
      exists_customerType_def cashback_or_exclusive_where_def snapshot_gate_def
      is_true_date_window percentage_filter_def)

text \<open>
  The claim as stated fails: an offer that lists both \<open>All\<close> and \<open>Vip\<close> matches a Vip
  user by the All condition and by the exact-type condition at once.
\<close>

theorem customer_type_rule_overlap_counterexample:
  "all_match
     ((example_db ''o_1'' ''o_2'')\<lparr>db_offerIndexCustomerType :=
        [\<lparr>ect_id = ''e1'', ect_offerIndexId = ''oi1'', ect_customerType = ''All''\<rparr>,
         \<lparr>ect_id = ''e2'', ect_offerIndexId = ''oi1'', ect_customerType = ''Vip''\<rparr>]\<rparr>)
     example_offer \<and>
   type_match
     ((example_db ''o_1'' ''o_2'')\<lparr>db_offerIndexCustomerType :=
        [\<lparr>ect_id = ''e1'', ect_offerIndexId = ''oi1'', ect_customerType = ''All''\<rparr>,
         \<lparr>ect_id = ''e2'', ect_offerIndexId = ''oi1'', ect_customerType = ''Vip''\<rparr>]\<rparr>)
     example_offer
     (Some \<lparr>ump_id = ''p1'', ump_userId = ''user-vip'', ump_merchantId = ''m_food_1'',
            ump_customerType = ''Vip'', ump_rank = 5, ump_computedAt = 0\<rparr>)"
  by (simp add: all_match_def type_match_def exists_customerType_def example_offer_def)

subsection \<open>Recompute: a missing source entity\<close>

text \<open>
  C7, as amended. \<open>rebuildCashbackIndex\<close> and \<open>rebuildExclusiveIndex\<close> called with an id
  that no source row has, and \<open>rebuildLoyaltyIndexByMerchant\<close> called for a merchant that
  does not exist or has no loyalty program, return without an error and leave the whole
  store as it was. \<open>rebuildUserMerchantProfilesForUser\<close> called for a user with no
  customer-type rows also returns without an error, and changes nothing but the profile
  rows of that user, which it deletes.
\<close>

theorem missing_source_is_noop:
  "(find (\<lambda>c. cc_id c = i) (db_cashbackConfiguration db) = None \<longrightarrow>
      rebuildCashbackIndex rt now db i = (None, db)) \<and>
   (find (\<lambda>e. eo_id e = i) (db_exclusiveOffer db) = None \<longrightarrow>
      rebuildExclusiveIndex rt now db i = (None, db)) \<and>
   (find (\<lambda>m. m_id m = i) (db_merchant db) = None \<longrightarrow>
      rebuildLoyaltyIndexByMerchant rt now db i = (None, db)) \<and>
   (\<forall>m. find (\<lambda>m. m_id m = i) (db_merchant db) = Some m \<and> m_LoyaltyProgram m = None \<longrightarrow>
      rebuildLoyaltyIndexByMerchant rt now db i = (None, db)) \<and>
   (filter (\<lambda>r. ct_userId r = i) (db_customerType db) = [] \<longrightarrow>
      rebuildUserMerchantProfilesForUser rt now db i =
        (None, db\<lparr>db_userMerchantProfile :=
                    filter (\<lambda>p. ump_userId p \<noteq> i) (db_userMerchantProfile db)\<rparr>))"
  by (simp add: rebuildCashbackIndex_def rebuildExclusiveIndex_def
      rebuildLoyaltyIndexByMerchant_def rebuildUserMerchantProfilesForUser_def Let_def)

theorem missing_source_is_noop_witness:
  "rebuildCashbackIndex example_runtime 10 (example_db ''o_1'' ''o_2'') ''gone'' =
     (None, example_db ''o_1'' ''o_2'') \<and>
   rebuildExclusiveIndex example_runtime 10 (example_db ''o_1'' ''o_2'') ''gone'' =
     (None, example_db ''o_1'' ''o_2'') \<and>
   rebuildLoyaltyIndexByMerchant example_runtime 10 (example_db ''o_1'' ''o_2'') ''gone'' =
     (None, example_db ''o_1'' ''o_2'') \<and>
   rebuildLoyaltyIndexByMerchant example_runtime 10 (example_db ''o_1'' ''o_2'') ''m_food_1'' =
     (None, example_db ''o_1'' ''o_2'') \<and>
   rebuildUserMerchantProfilesForUser example_runtime 10 (example_db ''o_1'' ''o_2'') ''ghost'' =
     (None, example_db ''o_1'' ''o_2'')"
  using missing_source_is_noop [of "''gone''" "example_db ''o_1'' ''o_2''" example_runtime 10]
        missing_source_is_noop [of "''m_food_1''" "example_db ''o_1'' ''o_2''" example_runtime 10]
        missing_source_is_noop [of "''ghost''" "example_db ''o_1'' ''o_2''" example_runtime 10]
  by (simp add: example_db_def)

text \<open>
  The claim as stated fails for the fourth operation: a user with no customer-type rows
  and one profile row left from before loses that row.
\<close>

theorem user_profiles_not_noop_counterexample:
  "filter (\<lambda>r. ct_userId r = ''ghost'')
     (db_customerType ((example_db ''o_1'' ''o_2'')\<lparr>db_userMerchantProfile := [stale_profile]\<rparr>)) = [] \<and>
   db_userMerchantProfile ((example_db ''o_1'' ''o_2'')\<lparr>db_userMerchantProfile := [stale_profile]\<rparr>) =
     [stale_profile] \<and>
   db_userMerchantProfile
     (snd (rebuildUserMerchantProfilesForUser example_runtime 10
            ((example_db ''o_1'' ''o_2'')\<lparr>db_userMerchantProfile := [stale_profile]\<rparr>) ''ghost'')) = []"
  by (simp add: rebuildUserMerchantProfilesForUser_def example_db_def stale_profile_def Let_def)

subsection \<open>Recompute: the loyalty index\<close>



















subsection \<open>Recompute: idempotence\<close>




























subsection \<open>Pagination\<close>

lemma set_fst_group_max: "fst ` set (group_max rows) = fst ` set rows"
  by (force simp: group_max_def)

lemma eligible_rows_have_outlets:
  "row \<in> set (eligible_rows rt db u now minB maxB cat search) \<Longrightarrow>
   \<exists>out \<in> set (db_outlet db). o_id out = fst row"
proof -
  assume "row \<in> set (eligible_rows rt db u now minB maxB cat search)"
  then have "fst row \<in> fst ` set (joined_rows rt db u now minB maxB cat search)"
    using set_fst_group_max [of "joined_rows rt db u now minB maxB cat search"]
    by (auto simp: eligible_rows_def)
  then show ?thesis by (auto simp: joined_rows_def)
qed

lemma byId_lookup:
  assumes "out \<in> set outs"
  shows "\<exists>out'. map_of (rev (map (\<lambda>out. (o_id out, out)) outs)) (o_id out) = Some out' \<and>
           o_id out' = o_id out"
proof -
  let ?xs = "rev (map (\<lambda>out. (o_id out, out)) outs)"
  from assms have "o_id out \<in> fst ` set ?xs" by force
  then obtain out' where f: "map_of ?xs (o_id out) = Some out'"
    by (cases "map_of ?xs (o_id out)") (auto simp: map_of_eq_None_iff)
  then have "(o_id out, out') \<in> set ?xs" by (rule map_of_SomeD)
  then have "o_id out' = o_id out" by auto
  with f show ?thesis by blast
qed

lemma map_filter_all_found:
  "(\<And>k. k \<in> set ids \<Longrightarrow> \<exists>out. f k = Some out \<and> g out = k) \<Longrightarrow>
   map g (List.map_filter f ids) = ids"
proof (induction ids)
  case Nil
  show ?case by (simp add: map_filter_simps)
next
  case (Cons k ids)
  from Cons.prems [of k] obtain out where "f k = Some out" "g out = k" by auto
  moreover have "map g (List.map_filter f ids) = ids"
    by (rule Cons.IH) (simp add: Cons.prems)
  ultimately show ?case by (simp add: map_filter_simps)
qed

lemma node_ids:
  assumes "\<And>row. row \<in> set pageRows \<Longrightarrow> \<exists>out \<in> set (db_outlet db). o_id out = fst row"
  shows "map (\<lambda>node. o_id (fst node)) (outlet_nodes db pageRows) = map fst pageRows"
proof -
  let ?ids = "map fst pageRows"
  let ?outs = "if ?ids \<noteq> [] then filter (\<lambda>out. List.member ?ids (o_id out)) (db_outlet db) else []"
  have "\<exists>out. map_of (rev (map (\<lambda>out. (o_id out, out)) ?outs)) k = Some out \<and> o_id out = k"
    if "k \<in> set ?ids" for k
  proof -
    from that obtain row where row: "row \<in> set pageRows" "k = fst row" by auto
    from assms [OF row(1)] row(2) obtain out where out: "out \<in> set (db_outlet db)" "o_id out = k"
      by auto
    with that have "out \<in> set ?outs" by auto
    from byId_lookup [OF this] out(2) show ?thesis by simp
  qed
  then have "map o_id (List.map_filter (map_of (rev (map (\<lambda>out. (o_id out, out)) ?outs))) ?ids) = ?ids"
    by (rule map_filter_all_found)
  then show ?thesis by (simp add: outlet_nodes_def Let_def comp_def)
qed

lemma normalizeTake_nat: "int (nat (normalizeTake t)) = normalizeTake t" "0 < nat (normalizeTake t)"
  by (simp_all add: normalizeTake_def Let_def)

lemma decodeCursor_Null: "decodeCursor rt Null = None"
  by (simp add: decodeCursor_def)

lemma prepare_cursor:
  "prepare client (nested_templates category search (Some cur)) =
     Some (case client of Bound \<Rightarrow> Syntax_error_42601 | Spliced \<Rightarrow> Grouping_error_42803)"
  by (cases client) (simp_all add: prepare_def nested_templates_def)

lemma prepare_Bound: "prepare Bound (nested_templates category search c) = Some Syntax_error_42601"
  by (simp add: prepare_def nested_templates_def)

lemma prepare_Spliced_no_cursor: "prepare Spliced (nested_templates category search None) = None"
  by (simp add: prepare_def nested_templates_def split: option.splits)

lemma offersResolver_cursor:
  fixes input :: OffersInput
  assumes "decodeCursor rt (in_cursor input) \<noteq> None"
  shows "offersResolver client rt db u now (Val input) =
           Inl (case client of Bound \<Rightarrow> Syntax_error_42601 | Spliced \<Rightarrow> Grouping_error_42803)"
proof -
  from assms obtain cur where "decodeCursor rt (in_cursor input) = Some cur" by auto
  then show ?thesis
    by (simp add: offersResolver_def Let_def offers_query_def prepare_cursor)
qed

lemma offersResolver_Bound:
  "offersResolver Bound rt db u now args = Inl Syntax_error_42601"
  by (simp add: offersResolver_def Let_def offers_query_def prepare_Bound)

lemma offersResolver_first_page:
  fixes input :: OffersInput and rt :: js_runtime and db :: database and u :: string
    and now :: timestamp and cur :: "string nullable"
  defines "t \<equiv> nat (normalizeTake (in_take input))"
  defines "S \<equiv> sort_key order_key (eligible_for rt db u now input)"
  assumes c: "decodeCursor rt cur = None"
  shows "\<exists>page. offersResolver Spliced rt db u now (Val (input\<lparr>in_cursor := cur\<rparr>)) = Inr page \<and>
           hasNextPage page = (t < length S) \<and>
           map (\<lambda>node. o_id (fst node)) (nodes page) = map fst (take t S) \<and>
           nextCursor page =
             (if t < length S
              then Val (encodeCursor (snd (last (take t S))) (fst (last (take t S))))
              else Null)"
proof -
  have tn: "normalizeTake (in_take input) = int t" "0 < t"
    using normalizeTake_nat [of "in_take input"] by (simp_all add: t_def)
  have q: "offers_query Spliced rt db u now
        (case in_percentage input of Val pf \<Rightarrow> or_null (minBps pf) | _ \<Rightarrow> None)
        (case in_percentage input of Val pf \<Rightarrow> or_null (maxBps pf) | _ \<Rightarrow> None)
        (map_option (trim_text rt) (or_null (in_category input)))
        (map_option (trim_text rt) (or_null (in_search input)))
        None (int t + 1) = Inr (take (Suc t) S)"
    by (simp add: offers_query_def prepare_Spliced_no_cursor S_def eligible_for_def nat_add_distrib)
  have page: "take t (take (Suc t) S) = take t S" by (simp add: min_def)
  have has: "(int t < int (length (take (Suc t) S))) = (t < length S)" by auto
  have outs: "\<exists>out \<in> set (db_outlet db). o_id out = fst row" if "row \<in> set (take t S)" for row
  proof -
    from that have "row \<in> set S" by (rule in_set_takeD)
    then have "row \<in> set (eligible_for rt db u now input)" by (auto simp: S_def)
    then show ?thesis unfolding eligible_for_def by (rule eligible_rows_have_outlets)
  qed
  have ne: "take t S \<noteq> []" if "t < length S"
    using that tn(2) by (cases S) auto
  show ?thesis
    using node_ids [of "take t S" db] outs ne
    by (simp add: offersResolver_def Let_def tn q page has c)
qed

lemma fetch_all_cursor:
  fixes input :: OffersInput
  assumes "decodeCursor rt cur \<noteq> None"
  shows "fetch_all n client rt db u now input cur \<noteq> Some (Inr ids)"
proof (cases n)
  case 0
  then show ?thesis by simp
next
  case (Suc k)
  have "offersResolver client rt db u now (Val (input\<lparr>in_cursor := cur\<rparr>)) =
      Inl (case client of Bound \<Rightarrow> Syntax_error_42601 | Spliced \<Rightarrow> Grouping_error_42803)"
    by (rule offersResolver_cursor) (simp add: assms)
  with Suc show ?thesis by simp
qed

lemma fetch_all_incomplete:
  fixes input :: OffersInput
  assumes many: "normalizeTake (in_take input) < int (length (eligible_for rt db u now input))"
    and c: "decodeCursor rt cur = None"
  shows "fetch_all n client rt db u now input cur \<noteq> Some (Inr ids)"
  using c
proof (induction n arbitrary: cur ids)
  case 0
  show ?case by simp
next
  case (Suc n)
  show ?case
  proof (cases client)
    case Bound
    then show ?thesis by (simp add: offersResolver_Bound)
  next
    case Spliced
    let ?t = "nat (normalizeTake (in_take input))"
    let ?S = "sort_key order_key (eligible_for rt db u now input)"
    from offersResolver_first_page [OF Suc.prems, of db u now input]
    obtain page where page: "offersResolver Spliced rt db u now (Val (input\<lparr>in_cursor := cur\<rparr>)) = Inr page"
      "hasNextPage page = (?t < length ?S)" by blast
    from many have "?t < length ?S" by (simp add: nat_less_iff normalizeTake_def Let_def)
    with page(2) have h: "hasNextPage page" by simp
    have "fetch_all n client rt db u now input (nextCursor page) \<noteq> Some (Inr rest)" for rest
    proof (cases "decodeCursor rt (nextCursor page)")
      case None
      then show ?thesis by (rule Suc.IH)
    next
      case (Some a)
      then show ?thesis by (intro fetch_all_cursor) simp
    qed
    then show ?thesis
      using Spliced page(1) h
      by (auto simp: Let_def split: option.splits sum.splits)
  qed
qed

lemma example_eligible:
  "eligible_for example_runtime (example_db ''o_1'' ''o_2'') ''u'' 10 example_input =
     [(''o_1'', 1000), (''o_2'', 1000)]"
  by code_simp

lemma fetch_all_one_page:
  fixes input :: OffersInput
  assumes few: "int (length (eligible_for rt db u now input)) \<le> normalizeTake (in_take input)"
  shows "fetch_all (Suc fuel) Spliced rt db u now input Null =
           Some (Inr (map fst (sort_key order_key (eligible_for rt db u now input))))"
proof -
  let ?t = "nat (normalizeTake (in_take input))"
  let ?S = "sort_key order_key (eligible_for rt db u now input)"
  from offersResolver_first_page [OF decodeCursor_Null, of rt db u now input]
  obtain page where page: "offersResolver Spliced rt db u now (Val (input\<lparr>in_cursor := Null\<rparr>)) = Inr page"
    "hasNextPage page = (?t < length ?S)"
    "map (\<lambda>node. o_id (fst node)) (nodes page) = map fst (take ?t ?S)" by blast
  from few have "length ?S \<le> ?t" by simp
  with page show ?thesis by simp
qed

text \<open>
  C4. The claim fails on the code. A request whose cursor decodes makes the resolver
  throw, whichever client it runs on: the generated client binds the nested templates as
  parameters, which PostgreSQL rejects as a syntax error (and that for every request,
  with or without a cursor), and a client that splices them in sends the keyset
  condition on \<open>MAX(eo."sortKey")\<close> inside \<open>WHERE\<close>, which PostgreSQL rejects as well.
  So when there are more eligible outlets than one page holds, the paging client never
  ends with the list of the eligible outlets: it ends with an error, or not at all. Only
  when all eligible outlets fit the first page does the splicing client return them,
  each once, in the order of the query.
\<close>

theorem pagination_rejected:
  "(decodeCursor rt (in_cursor input) \<noteq> None \<longrightarrow>
      offersResolver client rt db u now (Val input) =
        Inl (case client of Bound \<Rightarrow> Syntax_error_42601 | Spliced \<Rightarrow> Grouping_error_42803)) \<and>
   offersResolver Bound rt db u now args = Inl Syntax_error_42601 \<and>
   (normalizeTake (in_take input) < int (length (eligible_for rt db u now input)) \<longrightarrow>
      (\<forall>fuel ids. fetch_all fuel client rt db u now input Null \<noteq> Some (Inr ids))) \<and>
   (int (length (eligible_for rt db u now input)) \<le> normalizeTake (in_take input) \<longrightarrow>
      fetch_all (Suc fuel') Spliced rt db u now input Null =
        Some (Inr (map fst (sort_key order_key (eligible_for rt db u now input)))))"
  using offersResolver_cursor [of rt input client db u now]
    offersResolver_Bound [of rt db u now args]
    fetch_all_incomplete [of input rt db u now Null _ client, OF _ decodeCursor_Null]
    fetch_all_one_page [of rt db u now input fuel']
  by blast

theorem pagination_rejected_witness:
  "offersResolver Spliced example_runtime (example_db ''o_1'' ''o_2'') ''u'' 10
     (Val (example_input\<lparr>in_cursor := Val ''MTAwMDpvXzE=''\<rparr>)) = Inl Grouping_error_42803 \<and>
   offersResolver Bound example_runtime (example_db ''o_1'' ''o_2'') ''u'' 10
     (Val (example_input\<lparr>in_cursor := Val ''MTAwMDpvXzE=''\<rparr>)) = Inl Syntax_error_42601 \<and>
   offersResolver Bound example_runtime (example_db ''o_1'' ''o_2'') ''u'' 10 (Val example_input) =
     Inl Syntax_error_42601 \<and>
   map_sum id (\<lambda>page. (map (\<lambda>node. o_id (fst node)) (nodes page), hasNextPage page, nextCursor page))
     (offersResolver Spliced example_runtime (example_db ''o_1'' ''o_2'') ''u'' 10 (Val example_input)) =
     Inr ([''o_1''], True, Val ''MTAwMDpvXzE='') \<and>
   map fst (eligible_for example_runtime (example_db ''o_1'' ''o_2'') ''u'' 10 example_input) =
     [''o_1'', ''o_2''] \<and>
   fetch_all 5 Spliced example_runtime (example_db ''o_1'' ''o_2'') ''u'' 10 example_input Null =
     Some (Inl Grouping_error_42803) \<and>
   fetch_all 5 Bound example_runtime (example_db ''o_1'' ''o_2'') ''u'' 10 example_input Null =
     Some (Inl Syntax_error_42601) \<and>
   fetch_all 5 Spliced example_runtime (example_db ''o_1'' ''o_2'') ''u'' 10
     (example_input\<lparr>in_take := Val 2\<rparr>) Null = Some (Inr [''o_1'', ''o_2''])"
proof -
  let ?db = "example_db ''o_1'' ''o_2''"
  let ?second = "example_input\<lparr>in_cursor := Val ''MTAwMDpvXzE=''\<rparr>"
  have d: "decodeCursor example_runtime (in_cursor ?second) =
      Some \<lparr>sortKey = Fin 1000, outletId = ''o_1''\<rparr>"
    by code_simp
  have e2: "eligible_for example_runtime ?db ''u'' 10 (example_input\<lparr>in_take := Val 2\<rparr>) =
      [(''o_1'', 1000), (''o_2'', 1000)]"
    by code_simp
  have s: "sort_key order_key [(''o_1'', 1000 :: int), (''o_2'', 1000)] = [(''o_1'', 1000), (''o_2'', 1000)]"
    by code_simp
  have first: "map_sum id (\<lambda>page. (map (\<lambda>node. o_id (fst node)) (nodes page), hasNextPage page, nextCursor page))
     (offersResolver Spliced example_runtime ?db ''u'' 10 (Val example_input)) =
     Inr ([''o_1''], True, Val ''MTAwMDpvXzE='')"
    by code_simp
  have paged: "fetch_all 5 Spliced example_runtime ?db ''u'' 10 example_input Null =
      Some (Inl Grouping_error_42803)"
    "fetch_all 5 Bound example_runtime ?db ''u'' 10 example_input Null =
      Some (Inl Syntax_error_42601)"
    by code_simp+
  note t = pagination_rejected [of example_runtime _ _ ?db "''u''" 10]
  from t [of ?second Spliced "Val example_input" 4]
       t [of ?second Bound "Val example_input" 4]
       t [of example_input Spliced "Val example_input" 4]
       t [of "example_input\<lparr>in_take := Val 2\<rparr>" Spliced "Val example_input" 4]
       first paged
  show ?thesis
    unfolding d e2 s example_eligible
    by (simp add: normalizeTake_def)
qed

end
